theory Spec2Isabelle
  imports Complex_Main
begin

section \<open>Numbers\<close>

text \<open>
  The sources compute with IEEE-754 doubles (Python \<^verbatim>\<open>float\<close>, Cypher \<^verbatim>\<open>Float\<close>).
  Two readings are used.

  In the first, finite doubles are read as the real numbers they denote and the
  arithmetic on them as exact real arithmetic; the rounding error of a single operation,
  overflow and underflow are outside it. It is the reading of the Cypher statements and
  of the \<^verbatim>\<open>/fuzzy\<close> operation. The one place where these can leave the finite numbers
  on ordinary inputs, the division by a zero spread in the Cypher fuzzification, is
  written out (see \<open>cy_gauss\<close>).

  In the second, \<^verbatim>\<open>gaussian_membership\<close> of \<^verbatim>\<open>app.py\<close> is evaluated operation by
  operation in double precision, with the exceptions Python raises (see
  \<open>gaussian_membership_double\<close>). What is said about the exact value of a membership
  is said in this reading.
\<close>

text \<open>
  Python's \<^verbatim>\<open>round(x, ndigits)\<close> on a float: the nearest multiple of \<open>10^-ndigits\<close>,
  a tie going to the even multiple.
\<close>

definition round_half_even :: "real \<Rightarrow> int" where
  "round_half_even x =
     (let f = \<lfloor>x\<rfloor>; d = x - of_int f
      in if d < 1 / 2 then f
         else if 1 / 2 < d then f + 1
         else if even f then f else f + 1)"

definition py_round :: "real \<Rightarrow> nat \<Rightarrow> real" where
  "py_round x ndigits = of_int (round_half_even (x * 10 ^ ndigits)) / 10 ^ ndigits"

section \<open>app.py: Gaussian membership and the /fuzzy operation\<close>

text \<open>
  \<^verbatim>\<open>
  def gaussian_membership(x, mu, sigma):
      if sigma <= 0:
          return 0.0
      return math.exp(-((x - mu) ** 2) / (2 * (sigma ** 2)))
  \<close>
\<close>

definition gaussian_membership :: "real \<Rightarrow> real \<Rightarrow> real \<Rightarrow> real" where
  "gaussian_membership x mu sigma =
     (if sigma \<le> 0 then 0
      else exp (- ((x - mu) ^ 2) / (2 * (sigma ^ 2))))"

text \<open>
  The request body of \<^verbatim>\<open>/fuzzy\<close> (class \<^verbatim>\<open>FuzzyQuery\<close>). The optional fields default
  to \<^verbatim>\<open>None\<close>.
\<close>

record FuzzyQuery =
  indicador_nombre :: string
  valor :: "real option"
  media :: real
  sigma :: real
  dni :: "int option"
  sintoma :: "string option"

text \<open>
  The graph store is outside the repository. \<^verbatim>\<open>graph.query(query, params)\<close> with the
  fixed query text of \<^verbatim>\<open>fetch_indicator_value\<close> is a function of the three parameters
  \<^verbatim>\<open>dni\<close>, \<^verbatim>\<open>sint\<close>, \<^verbatim>\<open>iname\<close>; it raises (any exception of the driver, here
  \<open>QueryError\<close>) or returns a list of rows. A row maps a column name to its value;
  a column that is null or missing is \<open>None\<close>, which is what \<^verbatim>\<open>row.get\<close> returns for
  both.
\<close>

datatype query_error = QueryError string

type_synonym row = "string \<rightharpoonup> real"

type_synonym graph_store = "int \<Rightarrow> string \<Rightarrow> string \<Rightarrow> query_error + row list"

text \<open>
  \<^verbatim>\<open>
  def fetch_indicator_value(dni, sintoma, indicador_nombre):
      rows = graph.query(query, params={"dni": dni, "sint": sintoma, "iname": indicador_nombre})
      if rows:
          return rows[0].get("valor")
      return None
  \<close>
\<close>

definition fetch_indicator_value ::
  "graph_store \<Rightarrow> int \<Rightarrow> string \<Rightarrow> string \<Rightarrow> query_error + real option" where
  "fetch_indicator_value graph d s iname =
     (case graph d s iname of
        Inl e \<Rightarrow> Inl e
      | Inr rows \<Rightarrow> (case rows of [] \<Rightarrow> Inr None | r # _ \<Rightarrow> Inr (r ''valor'')))"

text \<open>Python truth values of an \<^verbatim>\<open>Optional[int]\<close> and of an \<^verbatim>\<open>Optional[str]\<close>.\<close>

definition truthy_int :: "int option \<Rightarrow> bool" where
  "truthy_int d = (case d of None \<Rightarrow> False | Some n \<Rightarrow> n \<noteq> 0)"

definition truthy_str :: "string option \<Rightarrow> bool" where
  "truthy_str s = (case s of None \<Rightarrow> False | Some t \<Rightarrow> t \<noteq> [])"

text \<open>The two dictionaries \<^verbatim>\<open>fuzzy\<close> returns.\<close>

datatype fuzzy_response =
    Error (error: string)
  | Payload (indicador: string) (valor_out: real) (gauss_media: real)
      (gauss_sigma: real) (pertenencia: real)

definition no_value_message :: string where
  "no_value_message = ''No hay valor del indicador. Proporcione 'valor' o (paciente+sintoma)''"

text \<open>
  \<^verbatim>\<open>
  def fuzzy(q):
      x = q.valor
      if x is None and q.dni and q.sintoma:
          x = fetch_indicator_value(dni=q.dni, sintoma=q.sintoma, indicador_nombre=q.indicador_nombre)
      if x is None:
          return {"error": "No hay valor del indicador. ..."}
      mu = gaussian_membership(x, q.media, q.sigma)
      return {"indicador": ..., "valor": x, "gauss_media": q.media,
              "gauss_sigma": q.sigma, "pertenencia": round(mu, 4)}
  \<close>
  The result is paired with the list of lookups sent to the store, so that a statement
  can say that none was made. An exception of the store is not caught: it is the
  \<open>Inl\<close> result.
\<close>

definition respond :: "FuzzyQuery \<Rightarrow> real option \<Rightarrow> fuzzy_response" where
  "respond q x =
     (case x of
        None \<Rightarrow> Error no_value_message
      | Some v \<Rightarrow>
          Payload (indicador_nombre q) v (media q) (sigma q)
            (py_round (gaussian_membership v (media q) (sigma q)) 4))"

definition fuzzy ::
  "graph_store \<Rightarrow> FuzzyQuery \<Rightarrow> (int \<times> string \<times> string) list \<times> (query_error + fuzzy_response)" where
  "fuzzy graph q =
     (if valor q = None \<and> truthy_int (dni q) \<and> truthy_str (sintoma q)
      then (let d = the (dni q); s = the (sintoma q)
            in ([(d, s, indicador_nombre q)],
                (case fetch_indicator_value graph d s (indicador_nombre q) of
                   Inl e \<Rightarrow> Inl e
                 | Inr x \<Rightarrow> Inr (respond q x))))
      else ([], Inr (respond q (valor q))))"

section \<open>app.py: the membership function in double precision\<close>

text \<open>
  Python evaluates
  \<^verbatim>\<open>math.exp(-((x - mu) ** 2) / (2 * (sigma ** 2)))\<close>
  one operation at a time, each on doubles. A \<^verbatim>\<open>float\<close> is a finite double, an
  infinity (\<open>Infinity True\<close> is the negative one) or a NaN. \<open>Finite r\<close> is meant for a
  real \<open>r\<close> that is a double; every operation below returns such a number. The two zeros
  are not told apart: no result of the function depends on the sign of a zero (a division
  by either raises, \<^verbatim>\<open>exp\<close> of either is 1.0, \<^verbatim>\<open>-0.0 <= 0\<close> holds).
\<close>

datatype pyfloat = Finite real | Infinity bool | NotANumber

text \<open>The exceptions the expression can raise.\<close>

datatype py_error = ZeroDivisionError | OverflowError

text \<open>
  Rounding to the nearest double, ties to even. \<open>fl x\<close> is the multiple of the unit in
  the last place of \<open>x\<close> that is nearest to \<open>x\<close>; the unit is \<open>2^(e - 52)\<close> when
  \<open>2^e \<le> \<bar>x\<bar> < 2^(e + 1)\<close>, and \<open>2^-1074\<close> when \<open>\<bar>x\<bar> < 2^-1022\<close> (the subnormal
  numbers and zero). The exponent is not bounded above in \<open>fl\<close>: a result whose rounding
  is above the largest double \<open>max_double\<close> has overflowed, which \<open>to_float\<close> turns into
  an infinity, as the arithmetic operations do.
\<close>

definition max_double :: real where
  "max_double = (2 ^ 53 - 1) * 2 ^ 971"

definition ulp_exponent :: "real \<Rightarrow> int" where
  "ulp_exponent x = (if \<bar>x\<bar> < 1 / 2 ^ 1022 then - 1074 else \<lfloor>log 2 \<bar>x\<bar>\<rfloor> - 52)"

definition fl :: "real \<Rightarrow> real" where
  "fl x = of_int (round_half_even (x / 2 powr of_int (ulp_exponent x)))
            * 2 powr of_int (ulp_exponent x)"

definition to_float :: "real \<Rightarrow> pyfloat" where
  "to_float x = (let y = fl x in if max_double < \<bar>y\<bar> then Infinity (y < 0) else Finite y)"

text \<open>\<^verbatim>\<open>sigma <= 0\<close>: a comparison with NaN does not hold.\<close>

definition le_zero :: "pyfloat \<Rightarrow> bool" where
  "le_zero a = (case a of Finite x \<Rightarrow> x \<le> 0 | Infinity s \<Rightarrow> s | NotANumber \<Rightarrow> False)"

text \<open>
  \<^verbatim>\<open>a - b\<close>, \<^verbatim>\<open>-a\<close> and \<^verbatim>\<open>2 * a\<close> on floats never raise: an overflow gives an infinity,
  and the difference of two infinities of the same sign is a NaN.
\<close>

definition py_sub :: "pyfloat \<Rightarrow> pyfloat \<Rightarrow> pyfloat" where
  "py_sub a b =
     (case a of
        NotANumber \<Rightarrow> NotANumber
      | Finite x \<Rightarrow>
          (case b of
             NotANumber \<Rightarrow> NotANumber
           | Finite y \<Rightarrow> to_float (x - y)
           | Infinity t \<Rightarrow> Infinity (\<not> t))
      | Infinity s \<Rightarrow>
          (case b of
             NotANumber \<Rightarrow> NotANumber
           | Finite y \<Rightarrow> Infinity s
           | Infinity t \<Rightarrow> if s = t then NotANumber else Infinity s))"

definition py_neg :: "pyfloat \<Rightarrow> pyfloat" where
  "py_neg a =
     (case a of NotANumber \<Rightarrow> NotANumber | Finite x \<Rightarrow> Finite (- x) | Infinity s \<Rightarrow> Infinity (\<not> s))"

definition py_mul2 :: "pyfloat \<Rightarrow> pyfloat" where
  "py_mul2 a =
     (case a of NotANumber \<Rightarrow> NotANumber | Finite x \<Rightarrow> to_float (2 * x) | Infinity s \<Rightarrow> Infinity s)"

text \<open>
  \<^verbatim>\<open>a ** 2\<close> on a float is the C function \<^verbatim>\<open>pow\<close>, and Python raises \<^verbatim>\<open>OverflowError\<close>
  when its result overflows; a result that underflows is returned as it is rounded
  (a subnormal number or zero). The same holds for \<^verbatim>\<open>math.exp\<close>. Both functions are
  read as correctly rounded.
\<close>

definition py_pow2 :: "pyfloat \<Rightarrow> py_error + pyfloat" where
  "py_pow2 a =
     (case a of
        NotANumber \<Rightarrow> Inr NotANumber
      | Infinity s \<Rightarrow> Inr (Infinity False)
      | Finite x \<Rightarrow>
          (let y = fl (x * x) in if max_double < y then Inl OverflowError else Inr (Finite y)))"

text \<open>
  \<^verbatim>\<open>a / b\<close> on floats raises \<^verbatim>\<open>ZeroDivisionError\<close> when \<^verbatim>\<open>b\<close> is zero, whatever \<^verbatim>\<open>a\<close>
  is; otherwise it follows IEEE 754.
\<close>

definition py_div :: "pyfloat \<Rightarrow> pyfloat \<Rightarrow> py_error + pyfloat" where
  "py_div a b =
     (case b of
        Finite y \<Rightarrow>
          (if y = 0 then Inl ZeroDivisionError
           else (case a of
                   NotANumber \<Rightarrow> Inr NotANumber
                 | Finite x \<Rightarrow> Inr (to_float (x / y))
                 | Infinity s \<Rightarrow> Inr (Infinity (s \<noteq> (y < 0)))))
      | Infinity t \<Rightarrow>
          (case a of Finite x \<Rightarrow> Inr (Finite 0) | _ \<Rightarrow> Inr NotANumber)
      | NotANumber \<Rightarrow> Inr NotANumber)"

definition py_exp :: "pyfloat \<Rightarrow> py_error + pyfloat" where
  "py_exp a =
     (case a of
        NotANumber \<Rightarrow> Inr NotANumber
      | Infinity s \<Rightarrow> Inr (if s then Finite 0 else Infinity False)
      | Finite x \<Rightarrow>
          (let y = fl (exp x) in if max_double < y then Inl OverflowError else Inr (Finite y)))"

text \<open>
  \<^verbatim>\<open>gaussian_membership\<close> as Python evaluates it: the first exception raised is the
  result of the call. \<^verbatim>\<open>fuzzy\<close> does not catch it, so a request whose membership raises
  here gets no payload; the model \<open>fuzzy\<close> above, in the real reading, does not show
  this.
\<close>

definition gaussian_membership_double :: "pyfloat \<Rightarrow> pyfloat \<Rightarrow> pyfloat \<Rightarrow> py_error + pyfloat" where
  "gaussian_membership_double x mu sg =
     (if le_zero sg then Inr (Finite 0)
      else (case py_pow2 (py_sub x mu) of
              Inl e \<Rightarrow> Inl e
            | Inr p \<Rightarrow>
                (case py_pow2 sg of
                   Inl e \<Rightarrow> Inl e
                 | Inr s \<Rightarrow>
                     (case py_div (py_neg p) (py_mul2 s) of
                        Inl e \<Rightarrow> Inl e
                      | Inr q \<Rightarrow> py_exp q))))"

section \<open>logicaDifusa.py: the Cypher statements on the frame graph\<close>

text \<open>
  The statements of \<^verbatim>\<open>logicaDifusa.py\<close> and the rule of \<^verbatim>\<open>esguincestorceduras.py\<close> are
  Cypher texts run against Neo4j. Each one is embedded as a function on the part of the
  graph it reads and writes. A property that a node may lack is an \<open>option\<close>
  (\<open>None\<close> is Cypher's \<^verbatim>\<open>null\<close>); \<^verbatim>\<open>datetime()\<close> is the time of the statement, a
  parameter \<open>now\<close>.

  A Cypher float is a finite real or \<open>NaN\<close>: dividing a float by zero does not fail in
  Cypher, it gives an infinity or \<open>NaN\<close>, and \<^verbatim>\<open>exp\<close> of minus infinity is 0.
\<close>

datatype num = Fin real | NaN

definition coalesce :: "'a option \<Rightarrow> 'a \<Rightarrow> 'a" where
  "coalesce v d = (case v of None \<Rightarrow> d | Some w \<Rightarrow> w)"

text \<open>\<^verbatim>\<open>m > t\<close> and \<^verbatim>\<open>m >= t\<close> on floats: a comparison with \<open>NaN\<close> does not hold.\<close>

definition num_gt :: "num \<Rightarrow> real \<Rightarrow> bool" where
  "num_gt m t = (case m of Fin r \<Rightarrow> t < r | NaN \<Rightarrow> False)"

definition num_ge :: "num \<Rightarrow> real \<Rightarrow> bool" where
  "num_ge m t = (case m of Fin r \<Rightarrow> t \<le> r | NaN \<Rightarrow> False)"

text \<open>
  Cypher's \<^verbatim>\<open>round(x, precision)\<close>: the nearest multiple of \<open>10^-precision\<close>, a tie
  going away from zero (mode HALF_UP); \<^verbatim>\<open>null\<close> and \<open>NaN\<close> are returned as they are.
\<close>

definition cy_round :: "real \<Rightarrow> nat \<Rightarrow> real" where
  "cy_round x p = sgn x * of_int \<lfloor>\<bar>x\<bar> * 10 ^ p + 1 / 2\<rfloor> / 10 ^ p"

definition cy_round_num :: "num option \<Rightarrow> nat \<Rightarrow> num option" where
  "cy_round_num v p =
     (case v of None \<Rightarrow> None | Some NaN \<Rightarrow> Some NaN | Some (Fin r) \<Rightarrow> Some (Fin (cy_round r p)))"

text \<open>A node with label \<^verbatim>\<open>Slot\<close> and the properties the statements use.\<close>

record Slot =
  labels :: "string list"
  slot_name :: "string option"
  valor_crisp :: "real option"
  funcion_pertenencia :: "string option"
  a_leve :: "real option"
  b_leve :: "real option"
  a_moderado :: "real option"
  b_moderado :: "real option"
  a_severo :: "real option"
  b_severo :: "real option"
  mu_leve :: "num option"
  mu_moderado :: "num option"
  mu_severo :: "num option"
  mu_baja :: "real option"
  mu_media :: "real option"
  mu_alta :: "real option"
  entropia :: "real option"
  fuzzy_last_updated :: "nat option"
  entropia_updated_at :: "nat option"

text \<open>A node with label \<^verbatim>\<open>Alerta\<close>.\<close>

record Alerta =
  codigo :: "string option"
  ts :: "nat option"
  severidad :: "string option"
  descripcion :: "string option"
  resuelta :: "bool option"
  created_at :: "nat option"

text \<open>
  \<^verbatim>\<open>Paciente\<close> and \<^verbatim>\<open>Sintoma\<close> nodes; \<open>paciente_node\<close> is the identity of the node in
  the store.
\<close>

record Paciente =
  paciente_node :: nat
  paciente_id :: "string option"
  paciente_nombre :: "string option"

record Sintoma =
  intensidad :: "string option"
  sintoma_nombre :: "string option"

text \<open>
  The graph: the slot nodes, the alert nodes (an alert is identified by its position,
  nodes are never deleted), the \<^verbatim>\<open>PRESENTA_SINTOMA\<close> relationships with their end nodes,
  and the \<^verbatim>\<open>REQUIERE_ATENCION\<close> relationships as pairs of a patient node and an alert
  position.
\<close>

record graph =
  slots :: "Slot list"
  alertas :: "Alerta list"
  presenta_sintoma :: "(Paciente \<times> Sintoma) list"
  requiere_atencion :: "(nat \<times> nat) list"

subsection \<open>Fuzzification\<close>

text \<open>
  One membership of \<^verbatim>\<open>fuzz_gauss_dolor\<close>:
  \<^verbatim>\<open>exp( - ((x - al) * (x - al)) / (2.0 * (bl * bl)) )\<close>.
  A missing centre makes the expression \<^verbatim>\<open>null\<close>. With \<open>bl * bl = 0\<close> the quotient is
  minus infinity when \<open>x \<noteq> al\<close> (membership 0) and \<open>NaN\<close> when \<open>x = al\<close>.
\<close>

definition cy_gauss :: "real \<Rightarrow> real option \<Rightarrow> real \<Rightarrow> num option" where
  "cy_gauss x a b =
     (case a of
        None \<Rightarrow> None
      | Some c \<Rightarrow>
          Some (if b * b = 0 then (if x = c then NaN else Fin 0)
                else Fin (exp (- ((x - c) * (x - c)) / (2 * (b * b))))))"

text \<open>
  \<^verbatim>\<open>
  MATCH (s:Slot:Dolor {slot_name:'dolor_actual'})
  WHERE s.valor_crisp IS NOT NULL AND s.funcion_pertenencia = 'gaussiana'
  \<close>
\<close>

definition is_dolor_actual :: "Slot \<Rightarrow> bool" where
  "is_dolor_actual s \<longleftrightarrow>
     ''Slot'' \<in> set (labels s) \<and> ''Dolor'' \<in> set (labels s) \<and> slot_name s = Some ''dolor_actual''"

definition fuzz_match :: "Slot \<Rightarrow> bool" where
  "fuzz_match s \<longleftrightarrow>
     is_dolor_actual s \<and> valor_crisp s \<noteq> None \<and> funcion_pertenencia s = Some ''gaussiana''"

text \<open>
  \<^verbatim>\<open>
  WITH s, s.valor_crisp AS x,
       s.a_leve AS al, coalesce(s.b_leve,1e-6) AS bl, ...
  SET s.mu_leve = exp(...), s.mu_moderado = exp(...), s.mu_severo = exp(...),
      s.fuzzy_last_updated = datetime()
  \<close>
\<close>

definition fuzz_set :: "nat \<Rightarrow> Slot \<Rightarrow> Slot" where
  "fuzz_set now s =
     (let x = the (valor_crisp s);
          bl = coalesce (b_leve s) (1 / 10 ^ 6);
          bm = coalesce (b_moderado s) (1 / 10 ^ 6);
          bs = coalesce (b_severo s) (1 / 10 ^ 6)
      in s\<lparr>mu_leve := cy_gauss x (a_leve s) bl,
            mu_moderado := cy_gauss x (a_moderado s) bm,
            mu_severo := cy_gauss x (a_severo s) bs,
            fuzzy_last_updated := Some now\<rparr>)"

text \<open>
  \<^verbatim>\<open>
  RETURN s.slot_name AS slot, x AS valor,
         round(s.mu_leve,3) AS mu_leve, round(s.mu_moderado,3) AS mu_moderado,
         round(s.mu_severo,3) AS mu_severo
  \<close>
\<close>

record fuzz_row =
  row_slot :: "string option"
  row_valor :: "real option"
  row_mu_leve :: "num option"
  row_mu_moderado :: "num option"
  row_mu_severo :: "num option"

definition fuzz_return :: "Slot \<Rightarrow> fuzz_row" where
  "fuzz_return s =
     \<lparr>row_slot = slot_name s, row_valor = valor_crisp s,
      row_mu_leve = cy_round_num (mu_leve s) 3,
      row_mu_moderado = cy_round_num (mu_moderado s) 3,
      row_mu_severo = cy_round_num (mu_severo s) 3\<rparr>"

definition fuzz_gauss_dolor :: "nat \<Rightarrow> graph \<Rightarrow> graph \<times> fuzz_row list" where
  "fuzz_gauss_dolor now g =
     (g\<lparr>slots := map (\<lambda>s. if fuzz_match s then fuzz_set now s else s) (slots g)\<rparr>,
      map (\<lambda>s. fuzz_return (fuzz_set now s)) (filter fuzz_match (slots g)))"

subsection \<open>Entropy\<close>

text \<open>
  \<^verbatim>\<open>
  reduce(h = 0.0, m IN U | h + CASE WHEN m > 0 THEN -(m * log(m)) ELSE 0.0 END) / log(3.0)
  \<close>
\<close>

definition entropy_term :: "num \<Rightarrow> real" where
  "entropy_term m = (if num_gt m 0 then (case m of Fin r \<Rightarrow> - (r * ln r) | NaN \<Rightarrow> 0) else 0)"

definition Hnorm :: "num list \<Rightarrow> real" where
  "Hnorm U = foldl (\<lambda>h m. h + entropy_term m) 0 U / ln 3"

text \<open>
  \<^verbatim>\<open>
  MATCH (s:Slot:Dolor {slot_name:'dolor_actual'})
  WITH s, coalesce(s.mu_leve,0.0) AS u1, coalesce(s.mu_moderado,0.0) AS u2,
          coalesce(s.mu_severo,0.0) AS u3
  WITH s, [u1,u2,u3] AS U
  ...
  SET s.entropia = round(Hnorm,4), s.entropia_updated_at = datetime()
  RETURN s.slot_name AS slot, s.valor_crisp AS dolor_actual, s.entropia AS entropia
  \<close>
\<close>

definition memberships :: "Slot \<Rightarrow> num list" where
  "memberships s =
     [coalesce (mu_leve s) (Fin 0), coalesce (mu_moderado s) (Fin 0), coalesce (mu_severo s) (Fin 0)]"

definition entropy_set :: "nat \<Rightarrow> Slot \<Rightarrow> Slot" where
  "entropy_set now s =
     s\<lparr>entropia := Some (cy_round (Hnorm (memberships s)) 4),
       entropia_updated_at := Some now\<rparr>"

definition entropy_dolor ::
  "nat \<Rightarrow> graph \<Rightarrow> graph \<times> (string option \<times> real option \<times> real option) list" where
  "entropy_dolor now g =
     (g\<lparr>slots := map (\<lambda>s. if is_dolor_actual s then entropy_set now s else s) (slots g)\<rparr>,
      map (\<lambda>s. (slot_name s, valor_crisp s, entropia (entropy_set now s)))
        (filter is_dolor_actual (slots g)))"

subsection \<open>Alert rules\<close>

text \<open>
  A statement is run once for every row its \<^verbatim>\<open>MATCH ... WHERE\<close> part produces; the
  rows of both rules are read from parts of the graph the rules do not write.
\<close>

fun for_each_row :: "('a \<Rightarrow> graph \<Rightarrow> graph \<times> 'r list) \<Rightarrow> 'a list \<Rightarrow> graph \<Rightarrow> graph \<times> 'r list" where
  "for_each_row f [] g = (g, [])"
| "for_each_row f (x # xs) g =
     (let (g1, r1) = f x g; (g2, r2) = for_each_row f xs g1 in (g2, r1 @ r2))"

text \<open>
  \<^verbatim>\<open>MERGE (al:Alerta {codigo: c})\<close>: binds every alert node with this code; when there is
  none, creates one (\<open>fresh\<close>: the code and the properties of \<^verbatim>\<open>ON CREATE SET\<close>) and
  binds it. The result carries the positions of the bound nodes.
\<close>

definition has_codigo :: "string \<Rightarrow> Alerta \<Rightarrow> bool" where
  "has_codigo c a \<longleftrightarrow> codigo a = Some c"

definition merge_alerta :: "string \<Rightarrow> Alerta \<Rightarrow> graph \<Rightarrow> graph \<times> nat list" where
  "merge_alerta c fresh g =
     (let ix = filter (\<lambda>i. has_codigo c (alertas g ! i)) [0..<length (alertas g)]
      in if ix = [] then (g\<lparr>alertas := alertas g @ [fresh]\<rparr>, [length (alertas g)])
         else (g, ix))"

text \<open>\<^verbatim>\<open>SET\<close> on the bound nodes.\<close>

definition set_at :: "(Alerta \<Rightarrow> Alerta) \<Rightarrow> nat list \<Rightarrow> Alerta list \<Rightarrow> Alerta list" where
  "set_at f ix as = map (\<lambda>i. if i \<in> set ix then f (as ! i) else as ! i) [0..<length as]"

definition new_alerta :: "string \<Rightarrow> Alerta" where
  "new_alerta c =
     \<lparr>codigo = Some c, ts = None, severidad = None, descripcion = None,
      resuelta = None, created_at = None\<rparr>"

text \<open>
  \<^verbatim>\<open>
  WITH 0.7 AS umbral_dolor, 0.6 AS umbral_mejora
  MATCH (sd:Slot:Dolor {slot_name:'dolor_actual'}), (sm:Slot:Mejora {slot_name:'mejora_observada'})
  WHERE coalesce(sd.mu_severo,0.0) >= umbral_dolor AND coalesce(sm.mu_baja,0.0) >= umbral_mejora
  MERGE (al:Alerta {codigo:'RIESGO_ALTO_ESGUINCE'})
  SET al.ts = datetime(), al.severidad = 'alta',
      al.descripcion = 'Dolor severo y baja mejoria en esguince/torcedura', al.resuelta = false
  RETURN al.codigo, al.severidad, al.descripcion, al.ts
  \<close>
  (the description has an accented i, two bytes in UTF-8).
\<close>

definition umbral_dolor :: real where
  "umbral_dolor = 7 / 10"

definition umbral_mejora :: real where
  "umbral_mejora = 6 / 10"

definition is_mejora_observada :: "Slot \<Rightarrow> bool" where
  "is_mejora_observada s \<longleftrightarrow>
     ''Slot'' \<in> set (labels s) \<and> ''Mejora'' \<in> set (labels s) \<and>
     slot_name s = Some ''mejora_observada''"

definition riesgo_alto_where :: "Slot \<times> Slot \<Rightarrow> bool" where
  "riesgo_alto_where r =
     (case r of (sd, sm) \<Rightarrow>
        is_dolor_actual sd \<and> is_mejora_observada sm \<and>
        num_ge (coalesce (mu_severo sd) (Fin 0)) umbral_dolor \<and>
        umbral_mejora \<le> coalesce (mu_baja sm) 0)"

definition riesgo_alto_rows :: "graph \<Rightarrow> (Slot \<times> Slot) list" where
  "riesgo_alto_rows g = filter riesgo_alto_where (List.product (slots g) (slots g))"

definition codigo_riesgo_alto :: string where
  "codigo_riesgo_alto = ''RIESGO_ALTO_ESGUINCE''"

definition descripcion_riesgo_alto :: string where
  "descripcion_riesgo_alto =
     ''Dolor severo y baja mejor'' @ [CHR 0xC3, CHR 0xAD] @ ''a en esguince/torcedura''"

definition set_riesgo_alto :: "nat \<Rightarrow> Alerta \<Rightarrow> Alerta" where
  "set_riesgo_alto now a =
     a\<lparr>ts := Some now, severidad := Some ''alta'',
       descripcion := Some descripcion_riesgo_alto, resuelta := Some False\<rparr>"

type_synonym riesgo_row = "string option \<times> string option \<times> string option \<times> nat option"

definition riesgo_alto_row :: "nat \<Rightarrow> graph \<Rightarrow> graph \<times> riesgo_row list" where
  "riesgo_alto_row now g =
     (let (g1, ix) = merge_alerta codigo_riesgo_alto (new_alerta codigo_riesgo_alto) g;
          g2 = g1\<lparr>alertas := set_at (set_riesgo_alto now) ix (alertas g1)\<rparr>
      in (g2, map (\<lambda>i. let al = alertas g2 ! i
                        in (codigo al, severidad al, descripcion al, ts al)) ix))"

definition rule_alerta_riesgo_alto :: "nat \<Rightarrow> graph \<Rightarrow> graph \<times> riesgo_row list" where
  "rule_alerta_riesgo_alto now g =
     for_each_row (\<lambda>r. riesgo_alto_row now) (riesgo_alto_rows g) g"

text \<open>
  The rule of \<^verbatim>\<open>esguincestorceduras.py\<close>:
  \<^verbatim>\<open>
  MATCH (p:Paciente)-[:PRESENTA_SINTOMA]->(s:Sintoma)
  WHERE s.intensidad = 'Intenso' AND toLower(s.nombre) = 'dolor'
  MERGE (a:Alerta {codigo: 'DERIVACION_INMEDIATA_DOLOR'})
  ON CREATE SET a.descripcion = 'Dolor intenso: se recomienda derivacion medica inmediata',
                a.created_at = datetime(), a.resuelta = false
  MERGE (p)-[:REQUIERE_ATENCION]->(a)
  RETURN p.id AS paciente_id, p.nombre AS nombre_paciente,
         a.codigo AS codigo_alerta, a.descripcion AS motivo
  \<close>
  (the description has two accented letters). \<^verbatim>\<open>toLower\<close> is written for the letters A
  to Z; no other character has a lower case among the letters of \<^verbatim>\<open>dolor\<close>.
\<close>

definition to_lower_char :: "char \<Rightarrow> char" where
  "to_lower_char ch =
     (let n = (of_char ch :: nat) in if 65 \<le> n \<and> n \<le> 90 then char_of (n + 32) else ch)"

definition toLower :: "string \<Rightarrow> string" where
  "toLower s = map to_lower_char s"

definition dolor_intenso_where :: "Paciente \<times> Sintoma \<Rightarrow> bool" where
  "dolor_intenso_where r =
     (case r of (p, s) \<Rightarrow>
        intensidad s = Some ''Intenso'' \<and> map_option toLower (sintoma_nombre s) = Some ''dolor'')"

definition dolor_intenso_rows :: "graph \<Rightarrow> (Paciente \<times> Sintoma) list" where
  "dolor_intenso_rows g = filter dolor_intenso_where (presenta_sintoma g)"

definition codigo_derivacion :: string where
  "codigo_derivacion = ''DERIVACION_INMEDIATA_DOLOR''"

definition descripcion_derivacion :: string where
  "descripcion_derivacion =
     ''Dolor intenso: se recomienda derivaci'' @ [CHR 0xC3, CHR 0xB3] @ ''n m''
       @ [CHR 0xC3, CHR 0xA9] @ ''dica inmediata''"

definition alerta_derivacion :: "nat \<Rightarrow> Alerta" where
  "alerta_derivacion now =
     \<lparr>codigo = Some codigo_derivacion, ts = None, severidad = None,
      descripcion = Some descripcion_derivacion, resuelta = Some False,
      created_at = Some now\<rparr>"

text \<open>
  \<^verbatim>\<open>MERGE (p)-[:REQUIERE_ATENCION]->(a)\<close> for the bound alerts in turn: a relationship
  that exists is matched (one result row for each copy of it), a missing one is created.
  The second component lists the alert of every result row.
\<close>

fun merge_requiere_atencion ::
  "nat \<Rightarrow> nat list \<Rightarrow> (nat \<times> nat) list \<Rightarrow> (nat \<times> nat) list \<times> nat list" where
  "merge_requiere_atencion p [] es = (es, [])"
| "merge_requiere_atencion p (i # ix) es =
     (let (es1, k) = (if (p, i) \<in> set es then (es, count_list es (p, i))
                      else (es @ [(p, i)], 1));
          (es2, r) = merge_requiere_atencion p ix es1
      in (es2, replicate k i @ r))"

type_synonym derivacion_row = "string option \<times> string option \<times> string option \<times> string option"

definition derivacion_row :: "nat \<Rightarrow> Paciente \<times> Sintoma \<Rightarrow> graph \<Rightarrow> graph \<times> derivacion_row list" where
  "derivacion_row now r g =
     (case r of (p, s) \<Rightarrow>
        let (g1, ix) = merge_alerta codigo_derivacion (alerta_derivacion now) g;
            (es, bound) = merge_requiere_atencion (paciente_node p) ix (requiere_atencion g1);
            g2 = g1\<lparr>requiere_atencion := es\<rparr>
        in (g2, map (\<lambda>i. let a = alertas g2 ! i
                          in (paciente_id p, paciente_nombre p, codigo a, descripcion a)) bound))"

definition CYpher_REGLA_HEMATOMA_SEVERO :: "nat \<Rightarrow> graph \<Rightarrow> graph \<times> derivacion_row list" where
  "CYpher_REGLA_HEMATOMA_SEVERO now g =
     for_each_row (derivacion_row now) (dolor_intenso_rows g) g"

section \<open>Concrete inputs\<close>

text \<open>Requests to \<^verbatim>\<open>/fuzzy\<close> and two stores: one without rows, one with an indicator.\<close>

definition scenario_E :: FuzzyQuery where
  "scenario_E =
     \<lparr>indicador_nombre = ''dolor'', valor = None, media = 8, sigma = 6 / 5,
      dni = None, sintoma = None\<rparr>"

definition lookup_query :: FuzzyQuery where
  "lookup_query =
     \<lparr>indicador_nombre = ''dolor'', valor = None, media = 8, sigma = 6 / 5,
      dni = Some 30111222, sintoma = Some ''dolor de tobillo''\<rparr>"

definition dni_zero_query :: FuzzyQuery where
  "dni_zero_query =
     \<lparr>indicador_nombre = ''dolor'', valor = None, media = 8, sigma = 6 / 5,
      dni = Some 0, sintoma = Some ''dolor de tobillo''\<rparr>"

definition empty_sintoma_query :: FuzzyQuery where
  "empty_sintoma_query =
     \<lparr>indicador_nombre = ''dolor'', valor = None, media = 8, sigma = 6 / 5,
      dni = Some 30111222, sintoma = Some []\<rparr>"

definition direct_query :: FuzzyQuery where
  "direct_query =
     \<lparr>indicador_nombre = ''dolor'', valor = Some 5, media = 5, sigma = 3 / 2,
      dni = None, sintoma = None\<rparr>"

definition empty_store :: graph_store where
  "empty_store d s iname = Inr []"

definition full_store :: graph_store where
  "full_store d s iname = Inr [[''valor'' \<mapsto> 15 / 2]]"

text \<open>
  The slot \<^verbatim>\<open>dolor_actual\<close> as \<^verbatim>\<open>seed_esguinces\<close> and \<^verbatim>\<open>gaussian_params_dolor\<close> leave
  it, and the slot \<^verbatim>\<open>mejora_observada\<close> of the seed.
\<close>

definition seed_dolor :: Slot where
  "seed_dolor =
     \<lparr>labels = [''Slot'', ''Dolor''], slot_name = Some ''dolor_actual'',
      valor_crisp = Some (15 / 2), funcion_pertenencia = Some ''gaussiana'',
      a_leve = Some 2, b_leve = Some (3 / 2),
      a_moderado = Some 5, b_moderado = Some (3 / 2),
      a_severo = Some 8, b_severo = Some (6 / 5),
      mu_leve = None, mu_moderado = None, mu_severo = None,
      mu_baja = None, mu_media = None, mu_alta = None,
      entropia = None, fuzzy_last_updated = None, entropia_updated_at = None\<rparr>"

definition seed_mejora :: Slot where
  "seed_mejora =
     \<lparr>labels = [''Slot'', ''Mejora''], slot_name = Some ''mejora_observada'',
      valor_crisp = Some 40, funcion_pertenencia = None,
      a_leve = None, b_leve = None, a_moderado = None, b_moderado = None,
      a_severo = None, b_severo = None,
      mu_leve = None, mu_moderado = None, mu_severo = None,
      mu_baja = Some (7 / 10), mu_media = Some (3 / 10), mu_alta = Some 0,
      entropia = None, fuzzy_last_updated = None, entropia_updated_at = None\<rparr>"

text \<open>
  Doubles: the ones the literals \<^verbatim>\<open>0.1\<close>, \<^verbatim>\<open>0.7\<close>, \<^verbatim>\<open>1e-200\<close> and \<^verbatim>\<open>1e200\<close> denote
  (lemmas \<open>fl_one_tenth\<close>, \<open>fl_seven_tenths\<close>, \<open>fl_1e_minus_200\<close>, \<open>fl_1e200\<close>), and
  the double \<^verbatim>\<open>1.2999999999999998\<close> that \<^verbatim>\<open>2 * 0.7 - 0.1\<close> evaluates to.
\<close>

definition one_tenth :: real where
  "one_tenth = 3602879701896397 / 2 ^ 55"

definition seven_tenths :: real where
  "seven_tenths = 3152519739159347 / 2 ^ 52"

definition mirror_of_one_tenth :: real where
  "mirror_of_one_tenth = 5854679515581644 / 2 ^ 52"




text \<open>The seed slot with the crisp value at the centre of a category of negative spread.\<close>

definition negative_spread_slot :: Slot where
  "negative_spread_slot = seed_dolor\<lparr>valor_crisp := Some 8, b_severo := Some (- (6 / 5))\<rparr>"

text \<open>A graph of the two slots with given memberships and no alert.\<close>

definition two_slots :: "real \<Rightarrow> real \<Rightarrow> graph" where
  "two_slots severo baja =
     \<lparr>slots = [seed_dolor\<lparr>mu_severo := Some (Fin severo)\<rparr>, seed_mejora\<lparr>mu_baja := Some baja\<rparr>],
      alertas = [], presenta_sintoma = [], requiere_atencion = []\<rparr>"

text \<open>A graph with one patient who presents an intense pain, and no alert.\<close>

definition paciente_demo :: Paciente where
  "paciente_demo =
     \<lparr>paciente_node = 1, paciente_id = Some ''P-001'', paciente_nombre = Some ''Paciente Demo''\<rparr>"

definition dolor_intenso :: Sintoma where
  "dolor_intenso = \<lparr>intensidad = Some ''Intenso'', sintoma_nombre = Some ''Dolor''\<rparr>"

definition one_patient :: graph where
  "one_patient =
     \<lparr>slots = [], alertas = [], presenta_sintoma = [(paciente_demo, dolor_intenso)],
      requiere_atencion = []\<rparr>"

text \<open>The two graphs of scenario F: a severe membership of 0.65, and of 0.75 with a low membership of 0.62.\<close>

definition scenario_F_below :: graph where
  "scenario_F_below = two_slots (65 / 100) (62 / 100)"

definition scenario_F_above :: graph where
  "scenario_F_above = two_slots (75 / 100) (62 / 100)"

text \<open>
  Resolving an alert is not done by the rules; it is an action from outside, here on
  every alert of the graph.
\<close>

definition resolve_all :: "graph \<Rightarrow> graph" where
  "resolve_all g = g\<lparr>alertas := map (\<lambda>a. a\<lparr>resuelta := Some True\<rparr>) (alertas g)\<rparr>"

section \<open>The effect of one firing on the alerts\<close>

text \<open>
  What one row of each rule does to the list of alerts, stated directly; the lemmas
  \<open>riesgo_alto_row_fst\<close> and \<open>derivacion_row_alertas\<close> prove that the statements
  above do exactly this.
\<close>

definition upsert_riesgo :: "nat \<Rightarrow> Alerta list \<Rightarrow> Alerta list" where
  "upsert_riesgo now as =
     (if \<exists>a\<in>set as. has_codigo codigo_riesgo_alto a
      then map (\<lambda>a. if has_codigo codigo_riesgo_alto a then set_riesgo_alto now a else a) as
      else as @ [set_riesgo_alto now (new_alerta codigo_riesgo_alto)])"

definition ensure_derivacion :: "nat \<Rightarrow> Alerta list \<Rightarrow> Alerta list" where
  "ensure_derivacion now as =
     (if \<exists>a\<in>set as. has_codigo codigo_derivacion a then as
      else as @ [alerta_derivacion now])"

section \<open>The membership function over the reals\<close>

lemma gaussian_membership_pos:
  "0 < sg \<Longrightarrow> gaussian_membership x c sg = exp (- ((x - c) ^ 2) / (2 * sg ^ 2))"
  by (simp add: gaussian_membership_def)

text \<open>
  In the real reading the membership of the centre is 1 and the function is symmetric
  around the centre, for every positive spread. Whether the doubles that Python computes
  have these properties is settled below, in the double-precision reading.
\<close>

lemma gaussian_membership_center_real:
  "0 < sg \<Longrightarrow> gaussian_membership c c sg = 1"
  by (simp add: gaussian_membership_def)

lemma gaussian_membership_symmetric_real:
  "0 < sg \<Longrightarrow> gaussian_membership x c sg = gaussian_membership (2 * c - x) c sg"
proof -
  have "(2 * c - x - c) ^ 2 = (x - c) ^ 2"
    by (simp add: power2_eq_square algebra_simps)
  then show ?thesis
    by (simp add: gaussian_membership_def)
qed

section \<open>The /fuzzy operation\<close>

lemma fetch_none_iff:
  "fetch_indicator_value graph d s iname = Inr None \<longleftrightarrow>
     (\<exists>rows. graph d s iname = Inr rows \<and> (rows = [] \<or> hd rows ''valor'' = None))"
  by (auto simp: fetch_indicator_value_def split: sum.splits list.splits)

text \<open>
  C8. A request with no direct value, whose lookup is either not attempted or completes
  without a value (no row, or a first row whose \<^verbatim>\<open>valor\<close> is null), gets the structured
  error payload as its result: the operation returns, it does not raise.
\<close>

theorem fuzzy_unresolved_error:
  assumes "valor q = None"
    and "truthy_int (dni q) \<and> truthy_str (sintoma q) \<longrightarrow>
           fetch_indicator_value graph (the (dni q)) (the (sintoma q)) (indicador_nombre q) = Inr None"
  shows "snd (fuzzy graph q) = Inr (Error no_value_message)"
  using assms by (auto simp: fuzzy_def respond_def Let_def)

theorem fuzzy_unresolved_error_witness:
  "valor scenario_E = None \<and> \<not> truthy_int (dni scenario_E)
   \<and> snd (fuzzy empty_store scenario_E) = Inr (Error no_value_message)
   \<and> valor lookup_query = None \<and> truthy_int (dni lookup_query) \<and> truthy_str (sintoma lookup_query)
   \<and> fetch_indicator_value empty_store (the (dni lookup_query)) (the (sintoma lookup_query))
        (indicador_nombre lookup_query) = Inr None
   \<and> snd (fuzzy empty_store lookup_query) = Inr (Error no_value_message)"
  using fuzzy_unresolved_error [of scenario_E empty_store]
    fuzzy_unresolved_error [of lookup_query empty_store]
  by (simp add: scenario_E_def lookup_query_def empty_store_def truthy_int_def truthy_str_def
      fetch_indicator_value_def)

text \<open>
  C10. A lookup is sent to the store only when the direct value is absent and both the
  dni and the symptom name are present and truthy; a request without a direct value whose
  dni is 0 or whose symptom is the empty string returns the unresolved-value error without
  any lookup, whatever the store holds.
\<close>

theorem lookup_only_when_keys_truthy:
  "(fst (fuzzy graph q) \<noteq> [] \<longrightarrow>
      valor q = None \<and> (\<exists>d s. dni q = Some d \<and> d \<noteq> 0 \<and> sintoma q = Some s \<and> s \<noteq> []
        \<and> fst (fuzzy graph q) = [(d, s, indicador_nombre q)]))
   \<and> (valor q = None \<and> (dni q = Some 0 \<or> sintoma q = Some []) \<longrightarrow>
        fuzzy graph q = ([], Inr (Error no_value_message)))"
  by (auto simp: fuzzy_def respond_def Let_def truthy_int_def truthy_str_def split: option.splits)

theorem lookup_only_when_keys_truthy_witness:
  "fetch_indicator_value full_store 0 ''dolor de tobillo'' ''dolor'' = Inr (Some (15 / 2))
   \<and> valor dni_zero_query = None \<and> dni dni_zero_query = Some 0
   \<and> fuzzy full_store dni_zero_query = ([], Inr (Error no_value_message))
   \<and> valor empty_sintoma_query = None \<and> sintoma empty_sintoma_query = Some []
   \<and> fuzzy full_store empty_sintoma_query = ([], Inr (Error no_value_message))
   \<and> fst (fuzzy full_store lookup_query) \<noteq> []
   \<and> fst (fuzzy full_store lookup_query) = [(30111222, ''dolor de tobillo'', ''dolor'')]"
  using lookup_only_when_keys_truthy [of full_store dni_zero_query]
    lookup_only_when_keys_truthy [of full_store empty_sintoma_query]
    lookup_only_when_keys_truthy [of full_store lookup_query]
  by (simp add: dni_zero_query_def empty_sintoma_query_def lookup_query_def full_store_def
      fetch_indicator_value_def fuzzy_def truthy_int_def truthy_str_def Let_def)

section \<open>Rounding\<close>

lemma round_half_even_eq:
  assumes "of_int k - 1 / 2 < x" and "x < of_int k + 1 / 2"
  shows "round_half_even x = k"
proof -
  have "of_int (k - 1) \<le> x" "x < of_int (k + 1)" using assms by simp_all
  then have "k - 1 \<le> \<lfloor>x\<rfloor>" "\<lfloor>x\<rfloor> < k + 1"
    by (simp_all only: le_floor_iff floor_less_iff)
  then have "\<lfloor>x\<rfloor> = k \<or> \<lfloor>x\<rfloor> = k - 1" by linarith
  then show ?thesis
  proof
    assume f: "\<lfloor>x\<rfloor> = k"
    then have "x - of_int k < 1 / 2" using assms by simp
    with f show ?thesis by (simp add: round_half_even_def Let_def)
  next
    assume f: "\<lfloor>x\<rfloor> = k - 1"
    then have "1 / 2 < x - of_int (k - 1)" using assms by simp
    with f show ?thesis by (simp add: round_half_even_def Let_def)
  qed
qed

lemma round_half_even_close: "\<bar>of_int (round_half_even x) - x\<bar> \<le> 1 / 2"
proof -
  have "of_int \<lfloor>x\<rfloor> \<le> x" "x < of_int \<lfloor>x\<rfloor> + 1" by linarith+
  then show ?thesis
    by (auto simp: round_half_even_def Let_def)
qed


lemma py_round_multiple: "\<exists>k::int. py_round x n = of_int k / 10 ^ n"
  by (auto simp: py_round_def)


lemma cy_round_nonneg: "0 \<le> x \<Longrightarrow> cy_round x p = of_int \<lfloor>x * 10 ^ p + 1 / 2\<rfloor> / 10 ^ p"
  by (cases "x = 0") (simp_all add: cy_round_def sgn_if)





lemma cy_round_eq:
  assumes "0 \<le> x" "of_int k - 1 / 2 \<le> x * 10 ^ p" "x * 10 ^ p < of_int k + 1 / 2"
  shows "cy_round x p = of_int k / 10 ^ p"
proof -
  have "\<lfloor>x * 10 ^ p + 1 / 2\<rfloor> = k"
    using assms by (intro floor_unique) linarith+
  then show ?thesis using assms by (simp add: cy_round_nonneg)
qed

lemma exp_scenario_A_bounds:
  "91685 / 100000 < exp (- (25 / 288) :: real)" "exp (- (25 / 288) :: real) < 91686 / 100000"
proof -
  obtain t :: real where t: "\<bar>t\<bar> \<le> \<bar>- (25 / 288)\<bar>"
    and e: "exp (- (25 / 288) :: real) = (\<Sum>m<5. ((- (25 / 288)) ^ m) / fact m) + (exp t / fact 5) * (- (25 / 288)) ^ 5"
    using Maclaurin_exp_le [of "- (25 / 288)" 5] by blast
  have "t \<le> 1" using t by simp
  then have "exp t \<le> exp 1" by simp
  also have "\<dots> \<le> 3" by (rule exp_le)
  finally have u: "exp t \<le> 3" .
  have l: "0 < exp t" by simp
  have s: "(\<Sum>m<5. ((- (25 / 288 :: real)) ^ m) / fact m)
      = 1 - 25 / 288 + (25 / 288)^2 / 2 - (25 / 288)^3 / 6 + (25 / 288)^4 / 24"
    by (simp add: lessThan_nat_numeral lessThan_Suc fact_numeral)
  have r: "(exp t / fact 5) * (- (25 / 288)) ^ 5 = - (exp t * ((25 / 288) ^ 5 / 120))"
    by (simp add: fact_numeral)
  have p: "0 \<le> ((25 / 288 :: real) ^ 5 / 120)" by simp
  have p': "0 < ((25 / 288 :: real) ^ 5 / 120)" by simp
  have r1: "exp t * ((25 / 288) ^ 5 / 120) \<le> 3 * ((25 / 288) ^ 5 / 120)"
    using u p by (rule mult_right_mono)
  have r0: "0 < exp t * ((25 / 288) ^ 5 / 120)"
    using l p' by (rule mult_pos_pos)
  have c1: "(91685 / 100000 :: real) < 1 - 25 / 288 + (25 / 288)^2 / 2 - (25 / 288)^3 / 6 + (25 / 288)^4 / 24 - 3 * ((25 / 288) ^ 5 / 120)"
    by (simp add: power_divide)
  have c2: "1 - 25 / 288 + (25 / 288)^2 / 2 - (25 / 288)^3 / 6 + (25 / 288)^4 / 24 < (91686 / 100000 :: real)"
    by (simp add: power_divide)
  show "91685 / 100000 < exp (- (25 / 288) :: real)"
    unfolding e s r using r1 c1 by linarith
  show "exp (- (25 / 288) :: real) < 91686 / 100000"
    unfolding e s r using r0 c2 by linarith
qed

section \<open>Rounding to the nearest double\<close>

lemma round_half_even_prop:
  "\<bar>of_int (round_half_even y) - y\<bar> < 1 / 2
   \<or> (\<bar>of_int (round_half_even y) - y\<bar> = 1 / 2 \<and> even (round_half_even y))"
proof -
  have "of_int \<lfloor>y\<rfloor> \<le> y" "y < of_int \<lfloor>y\<rfloor> + 1" by linarith+
  then show ?thesis
    by (auto simp: round_half_even_def Let_def)
qed

lemma round_half_even_tie:
  assumes "\<bar>of_int k - y\<bar> = 1 / 2" "even k"
  shows "round_half_even y = k"
proof -
  have "y = of_int k + 1 / 2 \<or> y = of_int k - 1 / 2"
    using assms(1) by (auto simp: abs_if split: if_splits)
  then show ?thesis
  proof
    assume y: "y = of_int k + 1 / 2"
    then have "\<lfloor>y\<rfloor> = k" by (intro floor_unique) simp_all
    then show ?thesis using y assms(2) by (simp add: round_half_even_def Let_def)
  next
    assume y: "y = of_int k - 1 / 2"
    then have "\<lfloor>y\<rfloor> = k - 1" by (intro floor_unique) simp_all
    then show ?thesis using y assms(2) by (simp add: round_half_even_def Let_def)
  qed
qed

lemma round_half_even_unique:
  assumes "\<bar>of_int k - y\<bar> < 1 / 2 \<or> (\<bar>of_int k - y\<bar> = 1 / 2 \<and> even k)"
  shows "round_half_even y = k"
  using assms
proof
  assume "\<bar>of_int k - y\<bar> < 1 / 2"
  then show ?thesis by (intro round_half_even_eq) linarith+
next
  assume "\<bar>of_int k - y\<bar> = 1 / 2 \<and> even k"
  then show ?thesis by (simp add: round_half_even_tie)
qed

lemma round_half_even_neg: "round_half_even (- y) = - round_half_even y"
proof (rule round_half_even_unique)
  have "\<bar>of_int (- round_half_even y) - (- y)\<bar> = \<bar>of_int (round_half_even y) - y\<bar>"
    by simp
  then show "\<bar>of_int (- round_half_even y) - - y\<bar> < 1 / 2
      \<or> (\<bar>of_int (- round_half_even y) - - y\<bar> = 1 / 2 \<and> even (- round_half_even y))"
    using round_half_even_prop [of y] by simp
qed

lemma ulp_exponent_neg: "ulp_exponent (- x) = ulp_exponent x"
  by (simp add: ulp_exponent_def)

lemma fl_neg: "fl (- x) = - fl x"
  by (simp add: fl_def ulp_exponent_neg round_half_even_neg)


lemma pow2_neg: "(2::real) powr of_int (- int n) = 1 / 2 ^ n"
proof -
  have "(2::real) powr (- real n) = inverse (2 powr real n)"
    by (rule powr_minus)
  also have "\<dots> = 1 / 2 ^ n"
    by (simp add: powr_realpow inverse_eq_divide)
  finally show ?thesis by simp
qed

lemma pow2_nat: "(2::real) powr of_int (int n) = 2 ^ n"
  by (simp add: powr_realpow)

lemma pow2_add: "(2::real) powr of_int (a + b) = 2 powr of_int a * 2 powr of_int b"
  by (simp add: powr_add)

lemma pow2_diff: "(2::real) powr of_int (a - b) = 2 powr of_int a / 2 powr of_int b"
  by (simp add: powr_diff)

lemma pow2_mono: "a \<le> b \<Longrightarrow> (2::real) powr of_int a \<le> 2 powr of_int b"
  by simp

lemma pow2_pos: "0 < (2::real) powr of_int a"
  by simp

lemma pos_of_ge:
  fixes x :: real
  assumes "1 / 2 ^ n \<le> x"
  shows "0 < x"
proof -
  have "(0::real) < 1 / 2 ^ n" by simp
  then show ?thesis using assms by linarith
qed


lemma round_half_even_ge:
  assumes "of_int k \<le> y"
  shows "k \<le> round_half_even y"
proof -
  have "\<bar>of_int (round_half_even y) - y\<bar> \<le> 1 / 2"
    by (rule round_half_even_close)
  then have "(of_int (k - 1) :: real) < of_int (round_half_even y)"
    using assms by (simp add: abs_if split: if_splits)
  then have "k - 1 < round_half_even y"
    by (simp only: of_int_less_iff)
  then show ?thesis by simp
qed

lemma round_half_even_le:
  assumes "y \<le> of_int k"
  shows "round_half_even y \<le> k"
proof -
  have "\<bar>of_int (round_half_even y) - y\<bar> \<le> 1 / 2"
    by (rule round_half_even_close)
  then have "(of_int (round_half_even y) :: real) < of_int (k + 1)"
    using assms by (simp add: abs_if split: if_splits)
  then have "round_half_even y < k + 1"
    by (simp only: of_int_less_iff)
  then show ?thesis by simp
qed

lemma fl_subnormal:
  assumes "\<bar>x\<bar> < 1 / 2 ^ 1022"
  shows "fl x = of_int (round_half_even (x * 2 ^ 1074)) / 2 ^ 1074"
proof -
  have u: "ulp_exponent x = - int 1074"
    using assms by (simp add: ulp_exponent_def)
  show ?thesis
    unfolding fl_def u pow2_neg by simp
qed

lemma log2_floor:
  assumes "0 < x"
  shows "2 powr of_int \<lfloor>log 2 x\<rfloor> \<le> x" "x < 2 * 2 powr of_int \<lfloor>log 2 x\<rfloor>"
proof -
  have "2 powr of_int \<lfloor>log 2 x\<rfloor> \<le> x \<and> x < 2 powr (of_int \<lfloor>log 2 x\<rfloor> + 1)"
    using floor_log_eq_powr_iff [of x 2 "\<lfloor>log 2 x\<rfloor>"] assms by simp
  then show "2 powr of_int \<lfloor>log 2 x\<rfloor> \<le> x" "x < 2 * 2 powr of_int \<lfloor>log 2 x\<rfloor>"
    by (simp_all add: powr_add)
qed

lemma log2_floor_eq:
  assumes "2 powr of_int e \<le> x" "x < 2 * 2 powr of_int e"
  shows "\<lfloor>log 2 x\<rfloor> = e"
proof -
  have "0 < x" using assms(1) pow2_pos [of e] by linarith
  moreover have "x < 2 powr (of_int e + 1)" using assms(2) by (simp add: powr_add)
  ultimately show ?thesis
    using floor_log_eq_powr_iff [of x 2 e] assms(1) by simp
qed

lemma fl_normal:
  assumes "1 / 2 ^ 1022 \<le> \<bar>x\<bar>"
  shows "fl x = of_int (round_half_even (x * 2 ^ 52 / 2 powr of_int \<lfloor>log 2 \<bar>x\<bar>\<rfloor>))
                  * (2 powr of_int \<lfloor>log 2 \<bar>x\<bar>\<rfloor> / 2 ^ 52)"
proof -
  have u: "ulp_exponent x = \<lfloor>log 2 \<bar>x\<bar>\<rfloor> - int 52"
    using assms by (simp add: ulp_exponent_def)
  show ?thesis
    unfolding fl_def u pow2_diff pow2_nat by simp
qed

lemma fl_normal_bounds:
  assumes "1 / 2 ^ 1022 \<le> x"
  shows "2 powr of_int \<lfloor>log 2 x\<rfloor> \<le> fl x"
    and "fl x \<le> 2 * 2 powr of_int \<lfloor>log 2 x\<rfloor>"
    and "\<bar>fl x - x\<bar> \<le> 2 powr of_int \<lfloor>log 2 x\<rfloor> / 2 ^ 53"
proof -
  define P :: real where "P = 2 powr of_int \<lfloor>log 2 x\<rfloor>"
  define y where "y = x * 2 ^ 52 / P"
  define k where "k = round_half_even y"
  have x: "0 < x" using assms by (rule pos_of_ge)
  have P: "0 < P" by (simp add: P_def)
  have b: "P \<le> x" "x < 2 * P"
    using log2_floor [OF x] by (simp_all add: P_def)
  have f: "fl x = of_int k * (P / 2 ^ 52)"
    using fl_normal [of x] assms x by (simp add: P_def y_def k_def)
  have xy: "x = y * (P / 2 ^ 52)"
    using P by (simp add: y_def)
  have "2 ^ 52 * P \<le> x * 2 ^ 52" using b(1) by simp
  then have y1: "of_int (2 ^ 52) \<le> y"
    using P by (simp add: y_def field_simps)
  have "x * 2 ^ 52 < 2 ^ 53 * P" using b(2) by simp
  then have y2: "y \<le> of_int (2 ^ 53)"
    using P by (simp add: y_def field_simps)
  have k1: "2 ^ 52 \<le> k" unfolding k_def using y1 by (rule round_half_even_ge)
  have k2: "k \<le> 2 ^ 53" unfolding k_def using y2 by (rule round_half_even_le)
  have "(of_int (2 ^ 52) :: real) \<le> of_int k" using k1 by (simp only: of_int_le_iff)
  then have "of_int (2 ^ 52) * (P / 2 ^ 52) \<le> of_int k * (P / 2 ^ 52)"
    using P by (intro mult_right_mono) simp_all
  then show "2 powr of_int \<lfloor>log 2 x\<rfloor> \<le> fl x"
    unfolding f P_def [symmetric] by simp
  have "(of_int k :: real) \<le> of_int (2 ^ 53)" using k2 by (simp only: of_int_le_iff)
  then have "of_int k * (P / 2 ^ 52) \<le> of_int (2 ^ 53) * (P / 2 ^ 52)"
    using P by (intro mult_right_mono) simp_all
  then show "fl x \<le> 2 * 2 powr of_int \<lfloor>log 2 x\<rfloor>"
    unfolding f P_def [symmetric] by simp
  have c: "\<bar>of_int k - y\<bar> \<le> 1 / 2"
    unfolding k_def by (rule round_half_even_close)
  have xy': "y * (P / 2 ^ 52) = x"
    using xy by simp
  have "fl x - x = of_int k * (P / 2 ^ 52) - y * (P / 2 ^ 52)"
    by (simp only: f xy')
  also have "\<dots> = (of_int k - y) * (P / 2 ^ 52)"
    by (simp only: left_diff_distrib)
  finally have "fl x - x = (of_int k - y) * (P / 2 ^ 52)" .
  then have "\<bar>fl x - x\<bar> = \<bar>of_int k - y\<bar> * \<bar>P / 2 ^ 52\<bar>"
    by (simp only: abs_mult)
  moreover have "\<bar>P / 2 ^ 52\<bar> = P / 2 ^ 52"
    using P by simp
  ultimately have e: "\<bar>fl x - x\<bar> = \<bar>of_int k - y\<bar> * (P / 2 ^ 52)"
    by simp
  have "\<bar>of_int k - y\<bar> * (P / 2 ^ 52) \<le> (1 / 2) * (P / 2 ^ 52)"
    using c P by (intro mult_right_mono) simp_all
  then have "\<bar>fl x - x\<bar> \<le> P / 2 ^ 53"
    unfolding e by simp
  then show "\<bar>fl x - x\<bar> \<le> 2 powr of_int \<lfloor>log 2 x\<rfloor> / 2 ^ 53"
    unfolding P_def .
qed

lemma fl_rel_error:
  assumes "1 / 2 ^ 1022 \<le> x"
  shows "\<bar>fl x - x\<bar> \<le> x / 2 ^ 53"
proof -
  have x: "0 < x" using assms by (rule pos_of_ge)
  have "\<bar>fl x - x\<bar> \<le> 2 powr of_int \<lfloor>log 2 x\<rfloor> / 2 ^ 53"
    using assms by (rule fl_normal_bounds)
  also have "\<dots> \<le> x / 2 ^ 53"
    using log2_floor(1) [OF x] by (intro divide_right_mono) simp_all
  finally show ?thesis .
qed

lemma pow2_less: "(2::real) powr of_int a < 2 powr of_int b \<Longrightarrow> a < b"
  by simp




lemma fl_nonneg:
  assumes "0 \<le> x"
  shows "0 \<le> fl x"
proof -
  have "0 \<le> x / 2 powr of_int (ulp_exponent x)" using assms by simp
  then have "(of_int 0 :: real) \<le> x / 2 powr of_int (ulp_exponent x)" by simp
  then have "0 \<le> round_half_even (x / 2 powr of_int (ulp_exponent x))"
    by (rule round_half_even_ge)
  then show ?thesis by (simp add: fl_def)
qed


lemma fl_le_max:
  assumes "0 \<le> x" "x < 2 ^ 1024 - 2 ^ 970"
  shows "fl x \<le> max_double"
proof (cases "x < 1 / 2 ^ 1022")
  case True
  then have s: "\<bar>x\<bar> < 1 / 2 ^ 1022" using assms(1) by simp
  have "x * 2 ^ 1074 \<le> (1 / 2 ^ 1022) * 2 ^ 1074"
    using True by (intro mult_right_mono) simp_all
  then have "x * 2 ^ 1074 \<le> of_int (2 ^ 52)" by simp
  then have "round_half_even (x * 2 ^ 1074) \<le> 2 ^ 52"
    by (rule round_half_even_le)
  then have "(of_int (round_half_even (x * 2 ^ 1074)) :: real) \<le> of_int (2 ^ 52)"
    by (simp only: of_int_le_iff)
  then have "(of_int (round_half_even (x * 2 ^ 1074)) :: real) / 2 ^ 1074 \<le> of_int (2 ^ 52) / 2 ^ 1074"
    by (intro divide_right_mono) simp_all
  moreover have "(of_int (2 ^ 52) :: real) / 2 ^ 1074 \<le> max_double"
    by (simp add: max_double_def)
  ultimately show ?thesis by (simp only: fl_subnormal [OF s])
next
  case False
  then have n: "1 / 2 ^ 1022 \<le> x" by simp
  then have x: "0 < x" by (rule pos_of_ge)
  define E where "E = \<lfloor>log 2 x\<rfloor>"
  have b: "2 powr of_int E \<le> x" "x < 2 * 2 powr of_int E"
    using log2_floor [OF x] by (simp_all add: E_def)
  have "x < 2 ^ 1024" using assms(2) by simp
  then have "2 powr of_int E < (2::real) powr of_int (int 1024)"
    unfolding pow2_nat using b(1) by linarith
  then have "E < int 1024" by (rule pow2_less)
  then consider "E \<le> 1022" | "E = 1023" by linarith
  then show ?thesis
  proof cases
    case 1
    then have "2 powr of_int (E + 1) \<le> (2::real) powr of_int (int 1023)"
      by (intro pow2_mono) simp
    then have "2 * 2 powr of_int E \<le> (2::real) ^ 1023"
      unfolding pow2_nat pow2_add by simp
    moreover have "(2::real) ^ 1023 \<le> max_double" by (simp add: max_double_def)
    ultimately show ?thesis
      using fl_normal_bounds(2) [OF n, folded E_def] by linarith
  next
    case 2
    then have P: "2 powr of_int \<lfloor>log 2 x\<rfloor> = (2::real) ^ 1023"
      using pow2_nat [of 1023] by (simp add: E_def)
    have f: "fl x = of_int (round_half_even (x / 2 ^ 971)) * 2 ^ 971"
      using fl_normal [of x] n x by (simp add: P)
    have "x / 2 ^ 971 < (2 ^ 1024 - 2 ^ 970) / 2 ^ 971"
      using assms(2) by (intro divide_strict_right_mono) simp_all
    then have y: "x / 2 ^ 971 < 2 ^ 53 - 1 / 2" by simp
    have "\<bar>of_int (round_half_even (x / 2 ^ 971)) - x / 2 ^ 971\<bar> \<le> 1 / 2"
      by (rule round_half_even_close)
    then have "(of_int (round_half_even (x / 2 ^ 971)) :: real) < of_int (2 ^ 53)"
      using y by (simp add: abs_if split: if_splits)
    then have "round_half_even (x / 2 ^ 971) < 2 ^ 53"
      by (simp only: of_int_less_iff)
    then have "round_half_even (x / 2 ^ 971) \<le> 2 ^ 53 - 1" by simp
    then have "(of_int (round_half_even (x / 2 ^ 971)) :: real) \<le> of_int (2 ^ 53 - 1)"
      by (simp only: of_int_le_iff)
    then have "(of_int (round_half_even (x / 2 ^ 971)) :: real) * 2 ^ 971 \<le> of_int (2 ^ 53 - 1) * 2 ^ 971"
      by (intro mult_right_mono) simp_all
    then show ?thesis unfolding f max_double_def by simp
  qed
qed


lemma fl_eq_low:
  assumes "2 ^ 52 \<le> \<bar>x\<bar> * 2 ^ n" "\<bar>x\<bar> * 2 ^ n < 2 ^ 53" "n \<le> 1074"
    and "of_int k - 1 / 2 < x * 2 ^ n" "x * 2 ^ n < of_int k + 1 / 2"
  shows "fl x = of_int k / 2 ^ n"
proof -
  have lo: "2 powr of_int (52 - int n) \<le> \<bar>x\<bar>"
  proof -
    have "2 powr of_int (52 - int n) = (2::real) powr of_int (int 52) / 2 powr of_int (int n)"
      by (simp only: pow2_diff) simp
    also have "\<dots> = 2 ^ 52 / 2 ^ n"
      by (simp only: pow2_nat)
    also have "\<dots> \<le> \<bar>x\<bar>"
      using assms(1) by (simp add: field_simps)
    finally show ?thesis .
  qed
  have hi: "\<bar>x\<bar> < 2 * 2 powr of_int (52 - int n)"
  proof -
    have "2 * 2 powr of_int (52 - int n) = 2 * ((2::real) powr of_int (int 52) / 2 powr of_int (int n))"
      by (simp only: pow2_diff) simp
    also have "\<dots> = 2 ^ 53 / 2 ^ n"
      by (simp only: pow2_nat) simp
    finally have e: "2 * 2 powr of_int (52 - int n) = (2::real) ^ 53 / 2 ^ n" .
    have "\<bar>x\<bar> < 2 ^ 53 / 2 ^ n"
      using assms(2) by (simp add: field_simps)
    then show ?thesis by (simp only: e)
  qed
  have fl: "\<lfloor>log 2 \<bar>x\<bar>\<rfloor> = 52 - int n"
    using lo hi by (rule log2_floor_eq)
  have "(2::real) powr of_int (- int 1022) \<le> 2 powr of_int (52 - int n)"
    using assms(3) by (intro pow2_mono) simp
  then have "(1::real) / 2 ^ 1022 \<le> 2 powr of_int (52 - int n)"
    unfolding pow2_neg .
  then have "\<not> \<bar>x\<bar> < 1 / 2 ^ 1022" using lo by linarith
  then have u: "ulp_exponent x = - int n"
    by (simp add: ulp_exponent_def fl)
  have "round_half_even (x * 2 ^ n) = k"
    using assms(4,5) by (rule round_half_even_eq)
  then show ?thesis
    unfolding fl_def u pow2_neg by simp
qed



text \<open>The doubles of the decimal literals.\<close>

lemma fl_one_tenth: "fl (1 / 10) = one_tenth"
  using fl_eq_low [of "1 / 10" 56 7205759403792794] by (simp add: one_tenth_def)

lemma fl_seven_tenths: "fl (7 / 10) = seven_tenths"
  using fl_eq_low [of "7 / 10" 53 6305039478318694] by (simp add: seven_tenths_def)



section \<open>The membership function in double precision\<close>

lemma max_double_pos: "0 < max_double"
  by (simp add: max_double_def)

lemma to_float_eq:
  assumes "fl x = y" "\<bar>y\<bar> \<le> max_double"
  shows "to_float x = Finite y"
  using assms by (simp add: to_float_def Let_def)


lemma to_float_neg: "to_float (- x) = py_neg (to_float x)"
  using max_double_pos by (auto simp: to_float_def Let_def fl_neg py_neg_def)

lemma py_pow2_neg: "py_pow2 (py_neg a) = py_pow2 a"
  by (cases a) (simp_all add: py_pow2_def py_neg_def)

lemma py_sub_mirror:
  "py_sub (Finite (2 * c - x)) (Finite c) = py_neg (py_sub (Finite x) (Finite c))"
proof -
  have "2 * c - x - c = - (x - c)" by simp
  then show ?thesis by (simp only: py_sub_def pyfloat.case to_float_neg)
qed



subsection \<open>The membership of the centre\<close>








subsection \<open>Symmetry\<close>

text \<open>
  C5 (as amended). The membership function is symmetric around the centre for every x
  whose mirror image is computed exactly: when the double that \<^verbatim>\<open>2 * center - x\<close>
  evaluates to is the real number \<open>2 * center - x\<close>, the call on the mirror image has the
  result of the call on x, for every spread.
\<close>

theorem membership_symmetric_exact:
  assumes "py_sub (py_mul2 (Finite c)) (Finite x) = Finite (2 * c - x)"
  shows "gaussian_membership_double (py_sub (py_mul2 (Finite c)) (Finite x)) (Finite c) sg
           = gaussian_membership_double (Finite x) (Finite c) sg"
  unfolding assms gaussian_membership_double_def py_sub_mirror py_pow2_neg ..

lemma mirror_exact_example: "py_sub (py_mul2 (Finite 8)) (Finite (15 / 2)) = Finite (17 / 2)"
proof -
  have "fl (2 * 8) = 16"
    using fl_eq_low [of "2 * 8" 48 "2 ^ 52"] by simp
  then have a: "py_mul2 (Finite 8) = Finite 16"
    by (simp add: py_mul2_def to_float_def max_double_def)
  have "fl (16 - 15 / 2) = 17 / 2"
    using fl_eq_low [of "16 - 15 / 2" 49 "17 * 2 ^ 48"] by simp
  then have "py_sub (Finite 16) (Finite (15 / 2)) = Finite (17 / 2)"
    by (simp add: py_sub_def to_float_def max_double_def)
  then show ?thesis by (simp only: a)
qed

theorem membership_symmetric_exact_witness:
  "py_sub (py_mul2 (Finite 8)) (Finite (15 / 2)) = Finite (2 * 8 - 15 / 2)
   \<and> py_sub (py_mul2 (Finite 8)) (Finite (15 / 2)) = Finite (17 / 2)
   \<and> gaussian_membership_double (Finite (17 / 2)) (Finite 8) (Finite (3 / 2))
       = gaussian_membership_double (Finite (15 / 2)) (Finite 8) (Finite (3 / 2))"
  using membership_symmetric_exact [of 8 "15 / 2" "Finite (3 / 2)"] mirror_exact_example
  by simp

lemma exp_ge_27:
  fixes q :: real
  assumes "- 3 \<le> q"
  shows "1 / 27 \<le> exp q"
proof -
  have "exp (3::real) = exp (of_nat 3 * 1)" by simp
  also have "\<dots> = exp 1 ^ 3" by (rule exp_of_nat_mult)
  also have "\<dots> \<le> (3::real) ^ 3" by (intro power_mono exp_le) simp
  finally have "exp (3::real) \<le> 27" by simp
  then have "1 / 27 \<le> 1 / exp (3::real)"
    by (intro divide_left_mono) simp_all
  also have "\<dots> = exp (- 3 :: real)" by (simp add: exp_minus inverse_eq_divide)
  also have "\<dots> \<le> exp q" using assms by simp
  finally show ?thesis .
qed

lemma py_exp_nonpos:
  assumes "q \<le> 0"
  shows "py_exp (Finite q) = Inr (Finite (fl (exp q)))"
proof -
  have "exp q \<le> 1" using assms by simp
  moreover have "(1::real) < 2 ^ 1024 - 2 ^ 970" by simp
  ultimately have "exp q < 2 ^ 1024 - 2 ^ 970" by linarith
  then have "fl (exp q) \<le> max_double" by (intro fl_le_max) simp_all
  then show ?thesis by (simp add: py_exp_def)
qed

lemma fl_exp_separated:
  assumes "- 3 \<le> q1" "q1 < q2" "2 < (q2 - q1) * (2 ^ 53 - 1)"
  shows "fl (exp q1) < fl (exp q2)"
proof -
  define a where "a = exp q1"
  define b where "b = exp q2"
  define d where "d = q2 - q1"
  define u :: real where "u = 1 / 2 ^ 53"
  have a: "0 < a" by (simp add: a_def)
  have u: "0 < u" "u < 1" by (simp_all add: u_def)
  have "(1::real) / 2 ^ 1022 \<le> 1 / 27" by simp
  then have na: "1 / 2 ^ 1022 \<le> a" "1 / 2 ^ 1022 \<le> b"
    using exp_ge_27 [of q1] exp_ge_27 [of q2] assms(1,2) by (simp_all add: a_def b_def)
  have ea: "fl a \<le> a + a * u"
    using fl_rel_error [OF na(1)] by (simp add: u_def abs_if split: if_splits)
  have eb: "b - b * u \<le> fl b"
    using fl_rel_error [OF na(2)] by (simp add: u_def abs_if split: if_splits)
  have "b = a * exp d"
    by (simp add: a_def b_def d_def exp_add [symmetric])
  moreover have "1 + d \<le> exp d" by (rule exp_ge_add_one_self)
  ultimately have ab: "a * (1 + d) \<le> b"
    using a by simp
  have "2 < d * (2 ^ 53 - 1)" using assms(3) by (simp add: d_def)
  then have "2 / 2 ^ 53 < d * (2 ^ 53 - 1) / 2 ^ 53"
    by (intro divide_strict_right_mono) simp_all
  also have "d * (2 ^ 53 - 1) / 2 ^ 53 = d * (1 - u)"
    by (simp add: u_def field_simps)
  finally have "2 * u < d * (1 - u)" by (simp add: u_def)
  then have "1 + u < (1 + d) * (1 - u)"
    by (simp add: algebra_simps)
  then have "a * (1 + u) < a * ((1 + d) * (1 - u))"
    using a by (intro mult_strict_left_mono)
  also have "\<dots> = (a * (1 + d)) * (1 - u)" by simp
  also have "\<dots> \<le> b * (1 - u)"
    using ab u by (intro mult_right_mono) simp_all
  finally have "a + a * u < b - b * u"
    by (simp add: algebra_simps)
  then show ?thesis
    using ea eb unfolding a_def b_def by linarith
qed

lemma gm_one_tenth:
  "gaussian_membership_double (Finite one_tenth) (Finite seven_tenths) (Finite (1 / 4))
     = Inr (Finite (fl (exp (- (6485183463413514 / 2 ^ 51)))))"
proof -
  have "fl (one_tenth - seven_tenths) = - (5404319552844595 / 2 ^ 53)"
    using fl_eq_low [of "one_tenth - seven_tenths" 53 "- 5404319552844595"]
    by (simp add: one_tenth_def seven_tenths_def)
  then have s1: "py_sub (Finite one_tenth) (Finite seven_tenths)
      = Finite (- (5404319552844595 / 2 ^ 53))"
    by (simp add: py_sub_def to_float_def max_double_def)
  have "fl (- (5404319552844595 / 2 ^ 53) * - (5404319552844595 / 2 ^ 53))
      = 6485183463413514 / 2 ^ 54"
    using fl_eq_low [of "- (5404319552844595 / 2 ^ 53) * - (5404319552844595 / 2 ^ 53)" 54
        6485183463413514]
    by simp
  then have s2: "py_pow2 (Finite (- (5404319552844595 / 2 ^ 53)))
      = Inr (Finite (6485183463413514 / 2 ^ 54))"
    by (simp add: py_pow2_def max_double_def)
  have "fl (1 / 4 * (1 / 4)) = 1 / 16"
    using fl_eq_low [of "1 / 4 * (1 / 4)" 56 "2 ^ 52"] by simp
  then have s3: "py_pow2 (Finite (1 / 4)) = Inr (Finite (1 / 16))"
    by (simp add: py_pow2_def max_double_def)
  have "fl (2 * (1 / 16)) = 1 / 8"
    using fl_eq_low [of "2 * (1 / 16)" 55 "2 ^ 52"] by simp
  then have s4: "py_mul2 (Finite (1 / 16)) = Finite (1 / 8)"
    by (simp add: py_mul2_def to_float_def max_double_def)
  have "fl (- (6485183463413514 / 2 ^ 54) / (1 / 8)) = - (6485183463413514 / 2 ^ 51)"
    using fl_eq_low [of "- (6485183463413514 / 2 ^ 54) / (1 / 8)" 51 "- 6485183463413514"]
    by simp
  then have s5: "py_div (py_neg (Finite (6485183463413514 / 2 ^ 54))) (Finite (1 / 8))
      = Inr (Finite (- (6485183463413514 / 2 ^ 51)))"
    by (simp add: py_div_def py_neg_def to_float_def max_double_def)
  have s6: "py_exp (Finite (- (6485183463413514 / 2 ^ 51)))
      = Inr (Finite (fl (exp (- (6485183463413514 / 2 ^ 51)))))"
    by (rule py_exp_nonpos) simp
  have s0: "\<not> le_zero (Finite (1 / 4))" by (simp add: le_zero_def)
  show ?thesis
    by (simp only: gaussian_membership_double_def s0 s1 s2 s3 s4 s5 s6 if_False sum.case)
qed

lemma mirror_one_tenth:
  "py_sub (py_mul2 (Finite seven_tenths)) (Finite one_tenth) = Finite mirror_of_one_tenth"
proof -
  have "fl (2 * seven_tenths) = 6305039478318694 / 2 ^ 52"
    using fl_eq_low [of "2 * seven_tenths" 52 6305039478318694]
    by (simp add: seven_tenths_def)
  then have a: "py_mul2 (Finite seven_tenths) = Finite (6305039478318694 / 2 ^ 52)"
    by (simp add: py_mul2_def to_float_def max_double_def)
  have "fl (6305039478318694 / 2 ^ 52 - one_tenth) = mirror_of_one_tenth"
    using fl_eq_low [of "6305039478318694 / 2 ^ 52 - one_tenth" 52 5854679515581644]
    by (simp add: one_tenth_def mirror_of_one_tenth_def)
  then have "py_sub (Finite (6305039478318694 / 2 ^ 52)) (Finite one_tenth)
      = Finite mirror_of_one_tenth"
    by (simp add: py_sub_def to_float_def max_double_def mirror_of_one_tenth_def)
  then show ?thesis by (simp only: a)
qed

lemma gm_mirror_one_tenth:
  "gaussian_membership_double (Finite mirror_of_one_tenth) (Finite seven_tenths) (Finite (1 / 4))
     = Inr (Finite (fl (exp (- (6485183463413511 / 2 ^ 51)))))"
proof -
  have "fl (mirror_of_one_tenth - seven_tenths) = 5404319552844594 / 2 ^ 53"
    using fl_eq_low [of "mirror_of_one_tenth - seven_tenths" 53 5404319552844594]
    by (simp add: mirror_of_one_tenth_def seven_tenths_def)
  then have s1: "py_sub (Finite mirror_of_one_tenth) (Finite seven_tenths)
      = Finite (5404319552844594 / 2 ^ 53)"
    by (simp add: py_sub_def to_float_def max_double_def)
  have "fl (5404319552844594 / 2 ^ 53 * (5404319552844594 / 2 ^ 53))
      = 6485183463413511 / 2 ^ 54"
    using fl_eq_low [of "5404319552844594 / 2 ^ 53 * (5404319552844594 / 2 ^ 53)" 54
        6485183463413511]
    by simp
  then have s2: "py_pow2 (Finite (5404319552844594 / 2 ^ 53))
      = Inr (Finite (6485183463413511 / 2 ^ 54))"
    by (simp add: py_pow2_def max_double_def)
  have "fl (1 / 4 * (1 / 4)) = 1 / 16"
    using fl_eq_low [of "1 / 4 * (1 / 4)" 56 "2 ^ 52"] by simp
  then have s3: "py_pow2 (Finite (1 / 4)) = Inr (Finite (1 / 16))"
    by (simp add: py_pow2_def max_double_def)
  have "fl (2 * (1 / 16)) = 1 / 8"
    using fl_eq_low [of "2 * (1 / 16)" 55 "2 ^ 52"] by simp
  then have s4: "py_mul2 (Finite (1 / 16)) = Finite (1 / 8)"
    by (simp add: py_mul2_def to_float_def max_double_def)
  have "fl (- (6485183463413511 / 2 ^ 54) / (1 / 8)) = - (6485183463413511 / 2 ^ 51)"
    using fl_eq_low [of "- (6485183463413511 / 2 ^ 54) / (1 / 8)" 51 "- 6485183463413511"]
    by simp
  then have s5: "py_div (py_neg (Finite (6485183463413511 / 2 ^ 54))) (Finite (1 / 8))
      = Inr (Finite (- (6485183463413511 / 2 ^ 51)))"
    by (simp add: py_div_def py_neg_def to_float_def max_double_def)
  have s6: "py_exp (Finite (- (6485183463413511 / 2 ^ 51)))
      = Inr (Finite (fl (exp (- (6485183463413511 / 2 ^ 51)))))"
    by (rule py_exp_nonpos) simp
  have s0: "\<not> le_zero (Finite (1 / 4))" by (simp add: le_zero_def)
  show ?thesis
    by (simp only: gaussian_membership_double_def s0 s1 s2 s3 s4 s5 s6 if_False sum.case)
qed

lemma exp_gap:
  "fl (exp (- (6485183463413514 / 2 ^ 51))) < fl (exp (- (6485183463413511 / 2 ^ 51)))"
  by (rule fl_exp_separated) simp_all

text \<open>
  Symmetry fails when the mirror image is rounded. With x = 0.1, centre 0.7 and spread
  0.25, \<^verbatim>\<open>2 * 0.7 - 0.1\<close> evaluates to 1.2999999999999998; the squares of the two
  distances from the centre differ by three units in the last place, and the two
  memberships are different doubles (0.056134762834133725 and 0.0561347628341338).
\<close>

theorem membership_symmetric_counterexample:
  "fl (1 / 10) = one_tenth \<and> fl (7 / 10) = seven_tenths
   \<and> py_sub (py_mul2 (Finite seven_tenths)) (Finite one_tenth) = Finite mirror_of_one_tenth
   \<and> gaussian_membership_double (Finite one_tenth) (Finite seven_tenths) (Finite (1 / 4))
       = Inr (Finite (fl (exp (- (6485183463413514 / 2 ^ 51)))))
   \<and> gaussian_membership_double (py_sub (py_mul2 (Finite seven_tenths)) (Finite one_tenth))
         (Finite seven_tenths) (Finite (1 / 4))
       = Inr (Finite (fl (exp (- (6485183463413511 / 2 ^ 51)))))
   \<and> fl (exp (- (6485183463413514 / 2 ^ 51))) < fl (exp (- (6485183463413511 / 2 ^ 51)))
   \<and> gaussian_membership_double (Finite one_tenth) (Finite seven_tenths) (Finite (1 / 4))
       \<noteq> gaussian_membership_double (py_sub (py_mul2 (Finite seven_tenths)) (Finite one_tenth))
           (Finite seven_tenths) (Finite (1 / 4))"
proof -
  have "gaussian_membership_double (Finite one_tenth) (Finite seven_tenths) (Finite (1 / 4))
       \<noteq> gaussian_membership_double (Finite mirror_of_one_tenth) (Finite seven_tenths) (Finite (1 / 4))"
    unfolding gm_one_tenth gm_mirror_one_tenth using exp_gap by simp
  then show ?thesis
    using fl_one_tenth fl_seven_tenths gm_one_tenth gm_mirror_one_tenth exp_gap
    by (simp only: mirror_one_tenth) simp
qed

section \<open>Entropy\<close>

lemma entropy_term_Fin: "entropy_term (Fin r) = (if 0 < r then - (r * ln r) else 0)"
  by (simp add: entropy_term_def num_gt_def)

lemma entropy_term_NaN: "entropy_term NaN = 0"
  by (simp add: entropy_term_def num_gt_def)

lemma neg_x_ln_x_le:
  fixes r :: real
  assumes "0 < r"
  shows "- (r * ln r) \<le> exp (- 1)"
proof -
  have "ln (exp (- 1) / r) \<le> exp (- 1) / r - 1"
    using assms by (intro ln_le_minus_one) simp
  moreover have "ln (exp (- 1) / r) = - 1 - ln r"
    using assms by (simp add: ln_div)
  ultimately have "- ln r \<le> exp (- 1) / r" by simp
  then have "- ln r * r \<le> exp (- 1) / r * r"
    using assms by (intro mult_right_mono) simp_all
  then show ?thesis using assms by (simp add: mult.commute)
qed

lemma entropy_term_range:
  assumes "0 \<le> r" "r \<le> 1"
  shows "0 \<le> entropy_term (Fin r)" "entropy_term (Fin r) \<le> exp (- 1)"
proof -
  show "0 \<le> entropy_term (Fin r)"
  proof (cases "0 < r")
    case True
    then have "ln r \<le> 0" using assms by simp
    then have "r * ln r \<le> 0" using True by (simp add: mult_le_0_iff)
    then show ?thesis using True by (simp add: entropy_term_Fin)
  next
    case False
    then show ?thesis by (simp add: entropy_term_Fin)
  qed
  show "entropy_term (Fin r) \<le> exp (- 1)"
    using neg_x_ln_x_le [of r] by (simp add: entropy_term_Fin)
qed

lemma foldl_entropy: "foldl (\<lambda>h m. h + entropy_term m) a U = a + sum_list (map entropy_term U)"
  by (induction U arbitrary: a) simp_all

lemma Hnorm_sum: "Hnorm U = sum_list (map entropy_term U) / ln 3"
  by (simp add: Hnorm_def foldl_entropy)

lemma ln3_pos: "0 < ln (3::real)"
  by simp

text \<open>
  C1 (as amended). For every vector of three memberships in [0,1], the only size the
  statement handles (it always divides by ln 3), the normalised entropy lies between 0
  and 3 / (e * ln 3), about 1.0046; the entropy of the all-zero vector is 0.
\<close>

theorem entropy_range:
  assumes "0 \<le> u1" "u1 \<le> 1" "0 \<le> u2" "u2 \<le> 1" "0 \<le> u3" "u3 \<le> 1"
  shows "0 \<le> Hnorm [Fin u1, Fin u2, Fin u3]
     \<and> Hnorm [Fin u1, Fin u2, Fin u3] \<le> 3 / (exp 1 * ln 3)
     \<and> Hnorm [Fin 0, Fin 0, Fin 0] = 0"
proof -
  let ?h = "entropy_term (Fin u1) + entropy_term (Fin u2) + entropy_term (Fin u3)"
  have h: "Hnorm [Fin u1, Fin u2, Fin u3] = ?h / ln 3"
    by (simp add: Hnorm_sum)
  have lo: "0 \<le> ?h"
    using entropy_term_range(1) [of u1] entropy_term_range(1) [of u2]
      entropy_term_range(1) [of u3] assms by linarith
  have hi: "?h \<le> 3 * exp (- 1)"
    using entropy_term_range(2) [of u1] entropy_term_range(2) [of u2]
      entropy_term_range(2) [of u3] assms by linarith
  have "0 \<le> ?h / ln 3"
    using lo ln3_pos by simp
  moreover have "?h / ln 3 \<le> 3 * exp (- 1) / ln 3"
    using hi ln3_pos by (simp add: divide_right_mono)
  moreover have "3 * exp (- 1) / ln 3 = 3 / (exp 1 * ln (3::real))"
    by (simp add: exp_minus field_simps)
  moreover have "Hnorm [Fin 0, Fin 0, Fin 0] = 0"
    by (simp add: Hnorm_sum entropy_term_Fin)
  ultimately show ?thesis using h by simp
qed

theorem entropy_range_witness:
  "(0::real) \<le> 1 / 2 \<and> (1 / 2 :: real) \<le> 1
   \<and> 0 \<le> Hnorm [Fin (1 / 2), Fin (1 / 2), Fin (1 / 2)]
   \<and> Hnorm [Fin (1 / 2), Fin (1 / 2), Fin (1 / 2)] \<le> 3 / (exp 1 * ln 3)
   \<and> Hnorm [Fin 0, Fin 0, Fin 0] = 0"
  using entropy_range [of "1 / 2" "1 / 2" "1 / 2"] by simp

lemma pow_ineq: "(3::real) ^ 100 < (100 / 37) ^ 111"
  by (simp add: power_divide)

text \<open>
  The bound 1 of the claim fails: three memberships of 0.37 have a normalised entropy
  above 1.
\<close>

theorem entropy_above_one_counterexample:
  "(0::real) \<le> 37 / 100 \<and> (37 / 100 :: real) \<le> 1
   \<and> \<not> Hnorm [Fin (37 / 100), Fin (37 / 100), Fin (37 / 100)] \<le> 1"
proof -
  have "ln ((3::real) ^ 100) < ln ((100 / 37) ^ 111)"
    using pow_ineq by (subst ln_less_cancel_iff) simp_all
  then have a: "100 * ln (3::real) < 111 * ln (100 / 37)"
    by (simp only: ln_realpow of_nat_numeral)
  have "ln (37 / 100 :: real) = - ln (100 / 37)"
    by (simp add: ln_div)
  then have t: "entropy_term (Fin (37 / 100)) = (37 / 100) * ln (100 / 37)"
    by (simp add: entropy_term_Fin)
  have "ln (3::real) < 3 * ((37 / 100) * ln (100 / 37))"
    using a by simp
  then have "1 < 3 * ((37 / 100) * ln (100 / 37)) / ln (3::real)"
    using ln3_pos by (simp add: less_divide_eq)
  then have "1 < Hnorm [Fin (37 / 100), Fin (37 / 100), Fin (37 / 100)]"
    by (simp add: Hnorm_sum t)
  then show ?thesis by simp
qed

section \<open>Degenerate spreads and the worked scenario\<close>

lemma gaussian_membership_scenario_A:
  "gaussian_membership (15 / 2) 8 (6 / 5) = exp (- (25 / 288))"
  by (simp add: gaussian_membership_def power2_eq_square)

lemma cy_gauss_neg_spread:
  assumes "b < 0"
  shows "cy_gauss x (Some c) b = Some (Fin (gaussian_membership x c (- b)))"
  using assms by (simp add: cy_gauss_def gaussian_membership_def power2_eq_square)

lemma fuzz_set_mu:
  "mu_leve (fuzz_set now s) = cy_gauss (the (valor_crisp s)) (a_leve s) (coalesce (b_leve s) (1 / 10 ^ 6))"
  "mu_moderado (fuzz_set now s) = cy_gauss (the (valor_crisp s)) (a_moderado s) (coalesce (b_moderado s) (1 / 10 ^ 6))"
  "mu_severo (fuzz_set now s) = cy_gauss (the (valor_crisp s)) (a_severo s) (coalesce (b_severo s) (1 / 10 ^ 6))"
  by (simp_all add: fuzz_set_def Let_def)

lemma py_round_zero: "py_round 0 n = 0"
  by (simp add: py_round_def round_half_even_def)

text \<open>
  C3 (as amended). For every x and centre, whenever the spread is not positive,
  \<open>gaussian_membership\<close> of \<^verbatim>\<open>app.py\<close> returns exactly 0, and so the \<^verbatim>\<open>/fuzzy\<close>
  operation reports a membership of 0. The Cypher fuzzification has no such case: it
  squares the spread, so a negative spread gives the membership of its absolute value.
\<close>

theorem degenerate_spread_policy:
  "(sg \<le> 0 \<longrightarrow> gaussian_membership x c sg = 0)
   \<and> (sigma q \<le> 0 \<longrightarrow>
        respond q (Some v) = Payload (indicador_nombre q) v (media q) (sigma q) 0)
   \<and> (valor_crisp s = Some y \<and> a_severo s = Some a \<and> b_severo s = Some b \<and> b < 0 \<longrightarrow>
        mu_severo (fuzz_set now s) = Some (Fin (gaussian_membership y a (- b))))
   \<and> (valor_crisp s = Some y \<and> a_moderado s = Some a \<and> b_moderado s = Some b \<and> b < 0 \<longrightarrow>
        mu_moderado (fuzz_set now s) = Some (Fin (gaussian_membership y a (- b))))
   \<and> (valor_crisp s = Some y \<and> a_leve s = Some a \<and> b_leve s = Some b \<and> b < 0 \<longrightarrow>
        mu_leve (fuzz_set now s) = Some (Fin (gaussian_membership y a (- b))))"
  by (simp add: gaussian_membership_def respond_def py_round_zero fuzz_set_mu coalesce_def
      cy_gauss_def power2_eq_square)

theorem degenerate_spread_policy_witness:
  "(- 1 :: real) \<le> 0 \<and> gaussian_membership 3 5 (- 1) = 0
   \<and> sigma (direct_query\<lparr>sigma := 0\<rparr>) \<le> 0
   \<and> respond (direct_query\<lparr>sigma := 0\<rparr>) (Some 5) = Payload ''dolor'' 5 5 0 0
   \<and> valor_crisp negative_spread_slot = Some 8 \<and> a_severo negative_spread_slot = Some 8
   \<and> b_severo negative_spread_slot = Some (- (6 / 5)) \<and> (- (6 / 5) :: real) < 0
   \<and> mu_severo (fuzz_set 0 negative_spread_slot) = Some (Fin (gaussian_membership 8 8 (6 / 5)))
   \<and> valor_crisp (seed_dolor\<lparr>b_moderado := Some (- 1)\<rparr>) = Some (15 / 2)
   \<and> mu_moderado (fuzz_set 0 (seed_dolor\<lparr>b_moderado := Some (- 1)\<rparr>))
        = Some (Fin (gaussian_membership (15 / 2) 5 1))
   \<and> mu_leve (fuzz_set 0 (seed_dolor\<lparr>b_leve := Some (- 1)\<rparr>))
        = Some (Fin (gaussian_membership (15 / 2) 2 1))"
  using degenerate_spread_policy [of "- 1" 3 5 "direct_query\<lparr>sigma := 0\<rparr>" 5
      negative_spread_slot 8 8 "- (6 / 5)" 0]
    degenerate_spread_policy [of "- 1" 3 5 "direct_query\<lparr>sigma := 0\<rparr>" 5
      "seed_dolor\<lparr>b_moderado := Some (- 1)\<rparr>" "15 / 2" 5 "- 1" 0]
    degenerate_spread_policy [of "- 1" 3 5 "direct_query\<lparr>sigma := 0\<rparr>" 5
      "seed_dolor\<lparr>b_leve := Some (- 1)\<rparr>" "15 / 2" 2 "- 1" 0]
  by (simp add: direct_query_def negative_spread_slot_def seed_dolor_def)

text \<open>
  The policy is not applied by the Cypher fuzzification: with a spread of -1.2 and the
  crisp value at the centre, the stored membership is 1.
\<close>

theorem negative_spread_counterexample:
  "fuzz_match negative_spread_slot
   \<and> b_severo negative_spread_slot = Some (- (6 / 5)) \<and> (- (6 / 5) :: real) \<le> 0
   \<and> mu_severo (fuzz_set 0 negative_spread_slot) = Some (Fin 1)
   \<and> mu_severo (fuzz_set 0 negative_spread_slot) \<noteq> Some (Fin 0)"
  by (simp add: negative_spread_slot_def seed_dolor_def fuzz_match_def is_dolor_actual_def
      fuzz_set_def Let_def coalesce_def cy_gauss_def)

lemma seed_mu_severo: "mu_severo (fuzz_set now seed_dolor) = Some (Fin (exp (- (25 / 288))))"
  by (simp add: seed_dolor_def fuzz_set_def Let_def coalesce_def cy_gauss_def)

lemma cy_round_scenario_A: "cy_round (exp (- (25 / 288))) 3 = 917 / 1000"
proof -
  have "cy_round (exp (- (25 / 288))) 3 = of_int 917 / 10 ^ 3"
    using exp_scenario_A_bounds by (intro cy_round_eq) simp_all
  then show ?thesis by simp
qed

lemma py_round_scenario_A: "py_round (exp (- (25 / 288))) 3 = 917 / 1000"
proof -
  have "round_half_even (exp (- (25 / 288)) * 10 ^ 3) = 917"
    using exp_scenario_A_bounds by (intro round_half_even_eq) simp_all
  then show ?thesis by (simp add: py_round_def)
qed

text \<open>
  C6 (as amended). The membership of 7.5 for centre 8.0 and spread 1.2, that is
  exp (-(7.5 - 8.0)^2 / (2 * 1.2^2)), is 0.917 when rounded to 3 decimal places, both
  from \<open>gaussian_membership\<close> and in the row the Cypher fuzzification returns for the
  seed slot.
\<close>

theorem scenario_A_value:
  "py_round (gaussian_membership (15 / 2) 8 (6 / 5)) 3 = 917 / 1000
   \<and> row_mu_severo (fuzz_return (fuzz_set now seed_dolor)) = Some (Fin (917 / 1000))"
  by (simp add: gaussian_membership_scenario_A py_round_scenario_A fuzz_return_def
      seed_mu_severo cy_round_num_def cy_round_scenario_A)

text \<open>The value 0.851 of the claim is not the rounded membership, nor within 0.0005 of it.\<close>

theorem scenario_A_counterexample:
  "py_round (gaussian_membership (15 / 2) 8 (6 / 5)) 3 \<noteq> 851 / 1000
   \<and> \<not> \<bar>gaussian_membership (15 / 2) 8 (6 / 5) - 851 / 1000\<bar> \<le> 1 / 2000"
  using exp_scenario_A_bounds
  by (simp add: gaussian_membership_scenario_A py_round_scenario_A)

section \<open>Precision of the scores\<close>













section \<open>Alert rules\<close>

subsection \<open>Rows\<close>

lemma for_each_row_fst:
  assumes "\<And>x g. A (fst (f x g)) = h (A g)"
  shows "A (fst (for_each_row f xs g)) = (h ^^ length xs) (A g)"
proof (induction xs arbitrary: g)
  case Nil
  then show ?case by simp
next
  case (Cons x xs)
  have "A (fst (for_each_row f (x # xs) g)) = A (fst (for_each_row f xs (fst (f x g))))"
    by (simp add: split_def Let_def)
  also have "\<dots> = (h ^^ length xs) (h (A g))"
    by (simp add: Cons.IH assms)
  finally show ?case by (simp add: funpow_swap1)
qed

lemma for_each_row_keeps:
  assumes "\<And>x g. A (fst (f x g)) = A g"
  shows "A (fst (for_each_row f xs g)) = A g"
  by (induction xs arbitrary: g) (simp_all add: split_def Let_def assms)

lemma for_each_row_snd_nonempty:
  assumes "\<And>x g. snd (f x g) \<noteq> []" "xs \<noteq> []"
  shows "snd (for_each_row f xs g) \<noteq> []"
  using assms by (cases xs) (simp_all add: split_def Let_def)

lemma funpow_idem:
  assumes "\<And>a. h (h a) = h a" "0 < n"
  shows "(h ^^ n) a = h a"
  using assms(2)
proof (induction n)
  case 0
  then show ?case by simp
next
  case (Suc n)
  then show ?case by (cases n) (simp_all add: assms(1))
qed

subsection \<open>MERGE and SET\<close>

lemma bound_positions:
  "set (filter (\<lambda>i. P (as ! i)) [0..<length as]) = {i. i < length as \<and> P (as ! i)}"
  by auto

lemma no_bound_positions:
  "filter (\<lambda>i. P (as ! i)) [0..<length as] = [] \<longleftrightarrow> \<not> (\<exists>a\<in>set as. P a)"
proof -
  have "filter (\<lambda>i. P (as ! i)) [0..<length as] = [] \<longleftrightarrow> (\<forall>i<length as. \<not> P (as ! i))"
    by (auto simp: filter_empty_conv)
  also have "\<dots> \<longleftrightarrow> \<not> (\<exists>a\<in>set as. P a)"
    by (metis in_set_conv_nth)
  finally show ?thesis .
qed

lemma set_at_bound:
  "set_at f (filter (\<lambda>i. P (as ! i)) [0..<length as]) as = map (\<lambda>a. if P a then f a else a) as"
proof -
  have "set_at f (filter (\<lambda>i. P (as ! i)) [0..<length as]) as
      = map (\<lambda>i. (\<lambda>a. if P a then f a else a) (as ! i)) [0..<length as]"
    unfolding set_at_def by (rule map_cong) auto
  also have "\<dots> = map (\<lambda>a. if P a then f a else a) (map ((!) as) [0..<length as])"
    by simp
  also have "\<dots> = map (\<lambda>a. if P a then f a else a) as"
    by (simp only: map_nth)
  finally show ?thesis .
qed

lemma set_at_fresh:
  assumes "\<not> (\<exists>a\<in>set as. P a)"
  shows "set_at f [length as] (as @ [b]) = as @ [f b]"
proof (rule nth_equalityI)
  show "length (set_at f [length as] (as @ [b])) = length (as @ [f b])"
    by (simp add: set_at_def)
next
  fix i assume "i < length (set_at f [length as] (as @ [b]))"
  then have "i < Suc (length as)" by (simp add: set_at_def)
  then show "set_at f [length as] (as @ [b]) ! i = (as @ [f b]) ! i"
    unfolding set_at_def
    by (subst nth_map_upt) (auto simp: nth_append)
qed

lemma riesgo_alto_row_fst:
  "fst (riesgo_alto_row now g) = g\<lparr>alertas := upsert_riesgo now (alertas g)\<rparr>"
proof (cases "\<exists>a\<in>set (alertas g). has_codigo codigo_riesgo_alto a")
  case True
  then have "filter (\<lambda>i. has_codigo codigo_riesgo_alto (alertas g ! i)) [0..<length (alertas g)] \<noteq> []"
    by (simp only: no_bound_positions) simp
  then show ?thesis
    using True
    by (simp add: riesgo_alto_row_def merge_alerta_def Let_def set_at_bound upsert_riesgo_def)
next
  case False
  then have "filter (\<lambda>i. has_codigo codigo_riesgo_alto (alertas g ! i)) [0..<length (alertas g)] = []"
    by (simp only: no_bound_positions) simp
  then show ?thesis
    using False set_at_fresh [of "alertas g" "has_codigo codigo_riesgo_alto"]
    by (simp add: riesgo_alto_row_def merge_alerta_def Let_def upsert_riesgo_def)
qed

lemma merge_alerta_bound_nonempty: "snd (merge_alerta c fresh g) \<noteq> []"
  by (simp add: merge_alerta_def Let_def)

lemma riesgo_alto_row_snd: "snd (riesgo_alto_row now g) \<noteq> []"
  using merge_alerta_bound_nonempty [of codigo_riesgo_alto "new_alerta codigo_riesgo_alto" g]
  by (simp add: riesgo_alto_row_def split_def Let_def)

lemma for_each_row_alertas:
  assumes "\<And>x g. fst (f x g) = g\<lparr>alertas := h (alertas g)\<rparr>"
  shows "fst (for_each_row f xs g) = g\<lparr>alertas := (h ^^ length xs) (alertas g)\<rparr>"
proof (induction xs arbitrary: g)
  case Nil
  then show ?case by simp
next
  case (Cons x xs)
  have "fst (for_each_row f (x # xs) g) = fst (for_each_row f xs (fst (f x g)))"
    by (simp add: split_def Let_def)
  also have "\<dots> = g\<lparr>alertas := (h ^^ length xs) (h (alertas g))\<rparr>"
    by (simp add: Cons.IH assms)
  finally show ?case by (simp add: funpow_swap1)
qed

subsection \<open>The threshold rule\<close>

lemma has_codigo_set_riesgo [simp]:
  "has_codigo c (set_riesgo_alto now a) = has_codigo c a"
  by (simp add: has_codigo_def set_riesgo_alto_def)

lemma has_codigo_new [simp]: "has_codigo c (new_alerta c)"
  by (simp add: has_codigo_def new_alerta_def)

lemma upsert_riesgo_has: "\<exists>a\<in>set (upsert_riesgo now as). has_codigo codigo_riesgo_alto a"
proof (cases "\<exists>a\<in>set as. has_codigo codigo_riesgo_alto a")
  case True
  then obtain a where a: "a \<in> set as" "has_codigo codigo_riesgo_alto a" by blast
  then have "set_riesgo_alto now a \<in> set (upsert_riesgo now as)"
    using True by (force simp: upsert_riesgo_def)
  then show ?thesis using a(2) has_codigo_set_riesgo by blast
next
  case False
  then show ?thesis by (simp add: upsert_riesgo_def)
qed

lemma upsert_riesgo_again:
  "upsert_riesgo t2 (upsert_riesgo t1 as)
     = map (\<lambda>a. if has_codigo codigo_riesgo_alto a then set_riesgo_alto t2 a else a)
         (upsert_riesgo t1 as)"
  using upsert_riesgo_has [of t1 as] by (subst upsert_riesgo_def) simp

lemma set_riesgo_alto_idem: "set_riesgo_alto t2 (set_riesgo_alto t1 a) = set_riesgo_alto t2 a"
  by (simp add: set_riesgo_alto_def)

lemma map_unbound: "\<not> (\<exists>a\<in>set as. P a) \<Longrightarrow> map (\<lambda>a. if P a then f a else a) as = as"
  by (induction as) simp_all

lemma upsert_riesgo_idem: "upsert_riesgo t2 (upsert_riesgo t1 as) = upsert_riesgo t2 as"
proof (cases "\<exists>a\<in>set as. has_codigo codigo_riesgo_alto a")
  case True
  then show ?thesis
    by (subst upsert_riesgo_again) (simp add: upsert_riesgo_def set_riesgo_alto_idem)
next
  case False
  then show ?thesis
    using map_unbound [OF False]
    by (subst upsert_riesgo_again) (simp add: upsert_riesgo_def set_riesgo_alto_idem)
qed

lemma upsert_riesgo_fields:
  assumes "a \<in> set (upsert_riesgo now as)" "has_codigo codigo_riesgo_alto a"
  shows "ts a = Some now \<and> severidad a = Some ''alta'' \<and> resuelta a = Some False
    \<and> descripcion a = Some descripcion_riesgo_alto"
  using assms by (auto simp: upsert_riesgo_def set_riesgo_alto_def split: if_splits)

lemma filter_none: "\<not> (\<exists>a\<in>set as. P a) \<Longrightarrow> filter P as = []"
  by (simp add: filter_empty_conv)

lemma upsert_riesgo_one:
  assumes "\<not> (\<exists>a\<in>set as. has_codigo codigo_riesgo_alto a)"
  shows "filter (has_codigo codigo_riesgo_alto) (upsert_riesgo now as)
    = [set_riesgo_alto now (new_alerta codigo_riesgo_alto)]"
  using assms filter_none [OF assms] by (simp add: upsert_riesgo_def)

lemma upsert_riesgo_count:
  "length (filter (has_codigo codigo_riesgo_alto) (upsert_riesgo t2 (upsert_riesgo t1 as)))
     = length (filter (has_codigo codigo_riesgo_alto) (upsert_riesgo t1 as))"
  unfolding upsert_riesgo_again
  by (induction "upsert_riesgo t1 as") (simp, simp add: filter_map comp_def)

lemma rule_riesgo_fst:
  "fst (rule_alerta_riesgo_alto now g)
     = g\<lparr>alertas := (upsert_riesgo now ^^ length (riesgo_alto_rows g)) (alertas g)\<rparr>"
  unfolding rule_alerta_riesgo_alto_def
  by (rule for_each_row_alertas) (rule riesgo_alto_row_fst)

lemma rule_riesgo_fired:
  assumes "riesgo_alto_rows g \<noteq> []"
  shows "fst (rule_alerta_riesgo_alto now g) = g\<lparr>alertas := upsert_riesgo now (alertas g)\<rparr>"
proof -
  have "(upsert_riesgo now ^^ length (riesgo_alto_rows g)) (alertas g) = upsert_riesgo now (alertas g)"
    using assms by (intro funpow_idem) (simp_all add: upsert_riesgo_idem)
  then show ?thesis by (simp add: rule_riesgo_fst)
qed

lemma rule_riesgo_not_fired:
  assumes "riesgo_alto_rows g = []"
  shows "rule_alerta_riesgo_alto now g = (g, [])"
  using assms by (simp add: rule_alerta_riesgo_alto_def)

lemma rule_riesgo_rows:
  assumes "riesgo_alto_rows g \<noteq> []"
  shows "snd (rule_alerta_riesgo_alto now g) \<noteq> []"
  unfolding rule_alerta_riesgo_alto_def
  using assms by (intro for_each_row_snd_nonempty) (simp_all add: riesgo_alto_row_snd)

lemma riesgo_alto_rows_alertas [simp]:
  "riesgo_alto_rows (g\<lparr>alertas := as\<rparr>) = riesgo_alto_rows g"
  by (simp add: riesgo_alto_rows_def)

subsection \<open>The string-match rule\<close>

lemma has_codigo_derivacion [simp]: "has_codigo codigo_derivacion (alerta_derivacion now)"
  by (simp add: has_codigo_def alerta_derivacion_def)

lemma derivacion_row_alertas:
  "alertas (fst (derivacion_row now r g)) = ensure_derivacion now (alertas g)"
proof (cases "\<exists>a\<in>set (alertas g). has_codigo codigo_derivacion a")
  case True
  then have "filter (\<lambda>i. has_codigo codigo_derivacion (alertas g ! i)) [0..<length (alertas g)] \<noteq> []"
    by (simp only: no_bound_positions) simp
  then show ?thesis
    using True
    by (simp add: derivacion_row_def merge_alerta_def Let_def split_def ensure_derivacion_def)
next
  case False
  then have "filter (\<lambda>i. has_codigo codigo_derivacion (alertas g ! i)) [0..<length (alertas g)] = []"
    by (simp only: no_bound_positions) simp
  then show ?thesis
    using False
    by (simp add: derivacion_row_def merge_alerta_def Let_def split_def ensure_derivacion_def)
qed

lemma derivacion_row_presenta:
  "presenta_sintoma (fst (derivacion_row now r g)) = presenta_sintoma g"
  by (simp add: derivacion_row_def merge_alerta_def Let_def split_def)

lemma ensure_derivacion_has: "\<exists>a\<in>set (ensure_derivacion now as). has_codigo codigo_derivacion a"
  by (simp add: ensure_derivacion_def)

lemma ensure_derivacion_idem: "ensure_derivacion t2 (ensure_derivacion t1 as) = ensure_derivacion t1 as"
  using ensure_derivacion_has [of t1 as] by (subst ensure_derivacion_def) simp

lemma regla_alertas:
  "alertas (fst (CYpher_REGLA_HEMATOMA_SEVERO now g))
     = (ensure_derivacion now ^^ length (dolor_intenso_rows g)) (alertas g)"
  unfolding CYpher_REGLA_HEMATOMA_SEVERO_def
  by (rule for_each_row_fst) (rule derivacion_row_alertas)

lemma regla_alertas_fired:
  assumes "dolor_intenso_rows g \<noteq> []"
  shows "alertas (fst (CYpher_REGLA_HEMATOMA_SEVERO now g)) = ensure_derivacion now (alertas g)"
proof -
  have "(ensure_derivacion now ^^ length (dolor_intenso_rows g)) (alertas g)
      = ensure_derivacion now (alertas g)"
    using assms by (intro funpow_idem) (simp_all add: ensure_derivacion_idem)
  then show ?thesis by (simp add: regla_alertas)
qed

lemma regla_rows_kept:
  "dolor_intenso_rows (fst (CYpher_REGLA_HEMATOMA_SEVERO now g)) = dolor_intenso_rows g"
proof -
  have "presenta_sintoma (fst (CYpher_REGLA_HEMATOMA_SEVERO now g)) = presenta_sintoma g"
    unfolding CYpher_REGLA_HEMATOMA_SEVERO_def
    by (rule for_each_row_keeps) (rule derivacion_row_presenta)
  then show ?thesis by (simp add: dolor_intenso_rows_def)
qed

lemma ensure_derivacion_one:
  assumes "\<not> (\<exists>a\<in>set as. has_codigo codigo_derivacion a)"
  shows "filter (has_codigo codigo_derivacion) (ensure_derivacion now as) = [alerta_derivacion now]"
  using assms filter_none [OF assms] by (simp add: ensure_derivacion_def)

subsection \<open>Scenario F\<close>

lemma no_rows_when_below:
  assumes "\<forall>sd\<in>set (slots g). is_dolor_actual sd \<longrightarrow> mu_severo sd = Some (Fin (65 / 100))"
  shows "riesgo_alto_rows g = []"
  using assms
  by (auto simp: riesgo_alto_rows_def filter_empty_conv riesgo_alto_where_def coalesce_def
      num_ge_def umbral_dolor_def)

lemma rows_when_above:
  assumes "sd \<in> set (slots g)" "is_dolor_actual sd" "mu_severo sd = Some (Fin (75 / 100))"
    and "sm \<in> set (slots g)" "is_mejora_observada sm" "mu_baja sm = Some (62 / 100)"
  shows "riesgo_alto_rows g \<noteq> []"
proof -
  have "riesgo_alto_where (sd, sm)"
    using assms
    by (simp add: riesgo_alto_where_def coalesce_def num_ge_def umbral_dolor_def umbral_mejora_def)
  moreover have "(sd, sm) \<in> set (List.product (slots g) (slots g))"
    using assms by simp
  ultimately have "(sd, sm) \<in> set (riesgo_alto_rows g)"
    by (simp add: riesgo_alto_rows_def)
  then show ?thesis by auto
qed

text \<open>
  C7. The high-risk rule, with thresholds 0.7 for the severe membership and 0.6 for the
  low improvement, does not fire when the severe membership is 0.65: it returns no row
  and leaves the graph as it was. It fires when the severe membership is 0.75 and the low
  membership is 0.62: it returns a row and the graph then holds the alert, unresolved.
\<close>

theorem riesgo_alto_scenario_F:
  "((\<forall>sd\<in>set (slots g). is_dolor_actual sd \<longrightarrow> mu_severo sd = Some (Fin (65 / 100))) \<longrightarrow>
      rule_alerta_riesgo_alto now g = (g, []))
   \<and> (sd \<in> set (slots g) \<and> is_dolor_actual sd \<and> mu_severo sd = Some (Fin (75 / 100))
       \<and> sm \<in> set (slots g) \<and> is_mejora_observada sm \<and> mu_baja sm = Some (62 / 100) \<longrightarrow>
      snd (rule_alerta_riesgo_alto now g) \<noteq> []
      \<and> (\<exists>a\<in>set (alertas (fst (rule_alerta_riesgo_alto now g))).
            codigo a = Some codigo_riesgo_alto \<and> severidad a = Some ''alta''
            \<and> resuelta a = Some False \<and> ts a = Some now))"
proof (intro conjI impI)
  assume "\<forall>sd\<in>set (slots g). is_dolor_actual sd \<longrightarrow> mu_severo sd = Some (Fin (65 / 100))"
  then show "rule_alerta_riesgo_alto now g = (g, [])"
    by (intro rule_riesgo_not_fired no_rows_when_below)
next
  assume a: "sd \<in> set (slots g) \<and> is_dolor_actual sd \<and> mu_severo sd = Some (Fin (75 / 100))
       \<and> sm \<in> set (slots g) \<and> is_mejora_observada sm \<and> mu_baja sm = Some (62 / 100)"
  then have r: "riesgo_alto_rows g \<noteq> []"
    using rows_when_above [of sd g sm] by blast
  then show "snd (rule_alerta_riesgo_alto now g) \<noteq> []"
    by (rule rule_riesgo_rows)
  obtain al where al: "al \<in> set (upsert_riesgo now (alertas g))" "has_codigo codigo_riesgo_alto al"
    using upsert_riesgo_has by blast
  then have "codigo al = Some codigo_riesgo_alto \<and> severidad al = Some ''alta''
      \<and> resuelta al = Some False \<and> ts al = Some now"
    using upsert_riesgo_fields [OF al] by (simp add: has_codigo_def)
  then show "\<exists>a\<in>set (alertas (fst (rule_alerta_riesgo_alto now g))).
      codigo a = Some codigo_riesgo_alto \<and> severidad a = Some ''alta''
      \<and> resuelta a = Some False \<and> ts a = Some now"
    using al(1) by (auto simp: rule_riesgo_fired [OF r])
qed

lemma two_slots_rows_below: "riesgo_alto_rows scenario_F_below = []"
  by (simp add: riesgo_alto_rows_def scenario_F_below_def two_slots_def riesgo_alto_where_def seed_dolor_def
      seed_mejora_def is_dolor_actual_def is_mejora_observada_def coalesce_def num_ge_def
      umbral_dolor_def umbral_mejora_def)

lemma two_slots_rows_above: "length (riesgo_alto_rows scenario_F_above) = 1"
  by (simp add: riesgo_alto_rows_def scenario_F_above_def two_slots_def riesgo_alto_where_def seed_dolor_def
      seed_mejora_def is_dolor_actual_def is_mejora_observada_def coalesce_def num_ge_def
      umbral_dolor_def umbral_mejora_def)

lemma two_slots_alertas: "alertas scenario_F_above = []"
  by (simp add: scenario_F_above_def two_slots_def)

lemma two_slots_fire: "riesgo_alto_rows scenario_F_above \<noteq> []"
  using two_slots_rows_above by auto

lemma resolve_all_rows [simp]: "riesgo_alto_rows (resolve_all g) = riesgo_alto_rows g"
  by (simp add: resolve_all_def)

lemma upsert_riesgo_empty:
  "upsert_riesgo t [] = [set_riesgo_alto t (new_alerta codigo_riesgo_alto)]"
  by (simp add: upsert_riesgo_def)

lemma upsert_riesgo_single:
  "has_codigo codigo_riesgo_alto a \<Longrightarrow> upsert_riesgo t [a] = [set_riesgo_alto t a]"
  by (simp add: upsert_riesgo_def)

lemma first_firing:
  "fst (rule_alerta_riesgo_alto t scenario_F_above)
     = scenario_F_above
         \<lparr>alertas := [set_riesgo_alto t (new_alerta codigo_riesgo_alto)]\<rparr>"
  by (simp only: rule_riesgo_fired [OF two_slots_fire] two_slots_alertas upsert_riesgo_empty)

lemma second_firing:
  assumes "has_codigo codigo_riesgo_alto a"
  shows "alertas (fst (rule_alerta_riesgo_alto t (scenario_F_above\<lparr>alertas := [a]\<rparr>)))
     = [set_riesgo_alto t a]"
proof -
  have "riesgo_alto_rows (scenario_F_above\<lparr>alertas := [a]\<rparr>) \<noteq> []"
    using two_slots_fire by simp
  then show ?thesis
    using assms by (simp add: rule_riesgo_fired upsert_riesgo_single)
qed

text \<open>
  The threshold rule is not idempotent on the alert: fired at time 10 and again at time
  20 on the same slots, it replaces the timestamp 10 of the alert by 20; and an alert
  resolved between the two firings is unresolved again after the second.
\<close>

theorem riesgo_alto_overwrites_counterexample:
  "slots (fst (rule_alerta_riesgo_alto 10 scenario_F_above))
     = slots scenario_F_above
   \<and> map ts (alertas (fst (rule_alerta_riesgo_alto 10 scenario_F_above)))
     = [Some 10]
   \<and> map ts (alertas (fst (rule_alerta_riesgo_alto 20
        (fst (rule_alerta_riesgo_alto 10 scenario_F_above)))))
     = [Some 20]
   \<and> map resuelta (alertas (resolve_all
        (fst (rule_alerta_riesgo_alto 10 scenario_F_above))))
     = [Some True]
   \<and> map resuelta (alertas (fst (rule_alerta_riesgo_alto 20 (resolve_all
        (fst (rule_alerta_riesgo_alto 10 scenario_F_above))))))
     = [Some False]"
proof -
  let ?G = "scenario_F_above"
  let ?a = "set_riesgo_alto 10 (new_alerta codigo_riesgo_alto)"
  have g1: "fst (rule_alerta_riesgo_alto 10 ?G) = ?G\<lparr>alertas := [?a]\<rparr>"
    by (rule first_firing)
  have res: "resolve_all (?G\<lparr>alertas := [?a]\<rparr>) = ?G\<lparr>alertas := [?a\<lparr>resuelta := Some True\<rparr>]\<rparr>"
    by (simp add: resolve_all_def)
  have c: "has_codigo codigo_riesgo_alto ?a"
    "has_codigo codigo_riesgo_alto (?a\<lparr>resuelta := Some True\<rparr>)"
    by (simp_all add: has_codigo_def set_riesgo_alto_def new_alerta_def)
  have "slots (fst (rule_alerta_riesgo_alto 10 ?G)) = slots ?G"
    by (simp add: g1)
  moreover have "map ts (alertas (fst (rule_alerta_riesgo_alto 10 ?G))) = [Some 10]"
    by (simp add: g1 set_riesgo_alto_def)
  moreover have "map ts (alertas (fst (rule_alerta_riesgo_alto 20 (fst (rule_alerta_riesgo_alto 10 ?G)))))
      = [Some 20]"
    unfolding g1 by (simp only: second_firing [OF c(1)]) (simp add: set_riesgo_alto_def)
  moreover have "map resuelta (alertas (resolve_all (fst (rule_alerta_riesgo_alto 10 ?G)))) = [Some True]"
    unfolding g1 res by simp
  moreover have "map resuelta (alertas (fst (rule_alerta_riesgo_alto 20
      (resolve_all (fst (rule_alerta_riesgo_alto 10 ?G)))))) = [Some False]"
    unfolding g1 res by (simp only: second_firing [OF c(2)]) (simp add: set_riesgo_alto_def)
  ultimately show ?thesis by blast
qed

lemma to_lower_Dolor: "toLower ''Dolor'' = ''dolor''"
  by code_simp

lemma one_patient_rows: "dolor_intenso_rows one_patient = [(paciente_demo, dolor_intenso)]"
  by (simp add: dolor_intenso_rows_def one_patient_def dolor_intenso_where_def
      dolor_intenso_def to_lower_Dolor)

lemma scenario_F_below_slots:
  "\<forall>sd\<in>set (slots scenario_F_below). is_dolor_actual sd \<longrightarrow> mu_severo sd = Some (Fin (65 / 100))"
  by (simp add: scenario_F_below_def two_slots_def seed_mejora_def is_dolor_actual_def)

lemma scenario_F_above_slots:
  "seed_dolor\<lparr>mu_severo := Some (Fin (75 / 100))\<rparr> \<in> set (slots scenario_F_above)"
  "seed_mejora\<lparr>mu_baja := Some (62 / 100)\<rparr> \<in> set (slots scenario_F_above)"
  by (simp_all add: scenario_F_above_def two_slots_def)

lemma scenario_F_above_match:
  "is_dolor_actual (seed_dolor\<lparr>mu_severo := Some (Fin (75 / 100))\<rparr>)"
  "is_mejora_observada (seed_mejora\<lparr>mu_baja := Some (62 / 100)\<rparr>)"
  by (simp_all add: seed_dolor_def seed_mejora_def is_dolor_actual_def is_mejora_observada_def)

theorem riesgo_alto_scenario_F_witness:
  "slots scenario_F_below
     = [seed_dolor\<lparr>mu_severo := Some (Fin (65 / 100))\<rparr>, seed_mejora\<lparr>mu_baja := Some (62 / 100)\<rparr>]
   \<and> mu_severo (seed_dolor\<lparr>mu_severo := Some (Fin (65 / 100))\<rparr>) = Some (Fin (65 / 100))
   \<and> \<not> is_dolor_actual (seed_mejora\<lparr>mu_baja := Some (62 / 100)\<rparr>)
   \<and> rule_alerta_riesgo_alto 5 scenario_F_below = (scenario_F_below, [])
   \<and> seed_dolor\<lparr>mu_severo := Some (Fin (75 / 100))\<rparr> \<in> set (slots scenario_F_above)
   \<and> is_dolor_actual (seed_dolor\<lparr>mu_severo := Some (Fin (75 / 100))\<rparr>)
   \<and> seed_mejora\<lparr>mu_baja := Some (62 / 100)\<rparr> \<in> set (slots scenario_F_above)
   \<and> is_mejora_observada (seed_mejora\<lparr>mu_baja := Some (62 / 100)\<rparr>)
   \<and> snd (rule_alerta_riesgo_alto 5 scenario_F_above) \<noteq> []
   \<and> (\<exists>a\<in>set (alertas (fst (rule_alerta_riesgo_alto 5 scenario_F_above))).
         codigo a = Some codigo_riesgo_alto \<and> severidad a = Some ''alta''
         \<and> resuelta a = Some False \<and> ts a = Some 5)"
proof -
  have b: "rule_alerta_riesgo_alto 5 scenario_F_below = (scenario_F_below, [])"
    using riesgo_alto_scenario_F [where g = scenario_F_below and now = 5
        and sd = seed_dolor and sm = seed_mejora] scenario_F_below_slots
    by blast
  have a: "snd (rule_alerta_riesgo_alto 5 scenario_F_above) \<noteq> []
      \<and> (\<exists>a\<in>set (alertas (fst (rule_alerta_riesgo_alto 5 scenario_F_above))).
         codigo a = Some codigo_riesgo_alto \<and> severidad a = Some ''alta''
         \<and> resuelta a = Some False \<and> ts a = Some 5)"
    using riesgo_alto_scenario_F [where g = scenario_F_above and now = 5
        and sd = "seed_dolor\<lparr>mu_severo := Some (Fin (75 / 100))\<rparr>"
        and sm = "seed_mejora\<lparr>mu_baja := Some (62 / 100)\<rparr>"]
      scenario_F_above_slots scenario_F_above_match
    by (simp add: seed_dolor_def seed_mejora_def)
  have c: "slots scenario_F_below
      = [seed_dolor\<lparr>mu_severo := Some (Fin (65 / 100))\<rparr>, seed_mejora\<lparr>mu_baja := Some (62 / 100)\<rparr>]"
    by (simp add: scenario_F_below_def two_slots_def)
  have d: "mu_severo (seed_dolor\<lparr>mu_severo := Some (Fin (65 / 100))\<rparr>) = Some (Fin (65 / 100))"
    by simp
  have e: "\<not> is_dolor_actual (seed_mejora\<lparr>mu_baja := Some (62 / 100)\<rparr>)"
    by (simp add: seed_mejora_def is_dolor_actual_def)
  show ?thesis
    using a b c d e scenario_F_above_slots scenario_F_above_match by blast
qed

text \<open>
  C2 (as amended). Both rules upsert by alert code: a second firing on the same slots or
  symptoms adds no alert, and when no alert of the code existed before the first firing
  there is exactly one afterwards. The string-match rule sets the description, the
  creation timestamp and the resolved flag only when it creates the alert, so a second
  firing leaves every alert as it was, and an existing alert is never changed. The
  threshold rule sets its fields on every firing: after a second firing at \<open>t2\<close> its
  alert has timestamp \<open>t2\<close> and is unresolved.
\<close>

theorem alert_upsert:
  "(riesgo_alto_rows g \<noteq> [] \<longrightarrow>
      length (alertas (fst (rule_alerta_riesgo_alto t2 (fst (rule_alerta_riesgo_alto t1 g)))))
        = length (alertas (fst (rule_alerta_riesgo_alto t1 g)))
      \<and> length (filter (has_codigo codigo_riesgo_alto)
           (alertas (fst (rule_alerta_riesgo_alto t2 (fst (rule_alerta_riesgo_alto t1 g))))))
        = length (filter (has_codigo codigo_riesgo_alto)
           (alertas (fst (rule_alerta_riesgo_alto t1 g))))
      \<and> (\<not> (\<exists>a\<in>set (alertas g). has_codigo codigo_riesgo_alto a) \<longrightarrow>
           length (filter (has_codigo codigo_riesgo_alto)
             (alertas (fst (rule_alerta_riesgo_alto t1 g)))) = 1)
      \<and> (\<forall>a\<in>set (alertas (fst (rule_alerta_riesgo_alto t2 (fst (rule_alerta_riesgo_alto t1 g))))).
           has_codigo codigo_riesgo_alto a \<longrightarrow> ts a = Some t2 \<and> resuelta a = Some False))
   \<and> (dolor_intenso_rows g \<noteq> [] \<longrightarrow>
      alertas (fst (CYpher_REGLA_HEMATOMA_SEVERO t2 (fst (CYpher_REGLA_HEMATOMA_SEVERO t1 g))))
        = alertas (fst (CYpher_REGLA_HEMATOMA_SEVERO t1 g))
      \<and> (\<not> (\<exists>a\<in>set (alertas g). has_codigo codigo_derivacion a) \<longrightarrow>
           filter (has_codigo codigo_derivacion) (alertas (fst (CYpher_REGLA_HEMATOMA_SEVERO t1 g)))
             = [alerta_derivacion t1])
      \<and> ((\<exists>a\<in>set (alertas g). has_codigo codigo_derivacion a) \<longrightarrow>
           alertas (fst (CYpher_REGLA_HEMATOMA_SEVERO t1 g)) = alertas g))"
proof (intro conjI impI)
  assume r: "riesgo_alto_rows g \<noteq> []"
  let ?g1 = "fst (rule_alerta_riesgo_alto t1 g)"
  have g1: "?g1 = g\<lparr>alertas := upsert_riesgo t1 (alertas g)\<rparr>"
    by (rule rule_riesgo_fired [OF r])
  have a1: "alertas ?g1 = upsert_riesgo t1 (alertas g)"
    by (simp add: g1)
  have r1: "riesgo_alto_rows ?g1 \<noteq> []"
    using r by (simp add: g1)
  have g2: "alertas (fst (rule_alerta_riesgo_alto t2 ?g1))
      = upsert_riesgo t2 (upsert_riesgo t1 (alertas g))"
    by (simp add: rule_riesgo_fired [OF r1] a1)
  show "length (alertas (fst (rule_alerta_riesgo_alto t2 ?g1))) = length (alertas ?g1)"
    unfolding g2 a1 by (simp add: upsert_riesgo_again)
  show "length (filter (has_codigo codigo_riesgo_alto) (alertas (fst (rule_alerta_riesgo_alto t2 ?g1))))
      = length (filter (has_codigo codigo_riesgo_alto) (alertas ?g1))"
    unfolding g2 a1 by (rule upsert_riesgo_count)
  show "length (filter (has_codigo codigo_riesgo_alto) (alertas ?g1)) = 1"
    if "\<not> (\<exists>a\<in>set (alertas g). has_codigo codigo_riesgo_alto a)"
    unfolding a1 using upsert_riesgo_one [OF that, of t1] by simp
  show "\<forall>a\<in>set (alertas (fst (rule_alerta_riesgo_alto t2 ?g1))).
      has_codigo codigo_riesgo_alto a \<longrightarrow> ts a = Some t2 \<and> resuelta a = Some False"
    unfolding g2 using upsert_riesgo_fields by blast
next
  assume d: "dolor_intenso_rows g \<noteq> []"
  let ?h1 = "fst (CYpher_REGLA_HEMATOMA_SEVERO t1 g)"
  have h1: "alertas ?h1 = ensure_derivacion t1 (alertas g)"
    by (rule regla_alertas_fired [OF d])
  have d1: "dolor_intenso_rows ?h1 \<noteq> []"
    using d by (simp add: regla_rows_kept)
  show "alertas (fst (CYpher_REGLA_HEMATOMA_SEVERO t2 ?h1)) = alertas ?h1"
    by (simp add: regla_alertas_fired [OF d1] h1 ensure_derivacion_idem)
  show "filter (has_codigo codigo_derivacion) (alertas ?h1) = [alerta_derivacion t1]"
    if "\<not> (\<exists>a\<in>set (alertas g). has_codigo codigo_derivacion a)"
    unfolding h1 using ensure_derivacion_one [OF that, of t1] by simp
  show "alertas ?h1 = alertas g"
    if "\<exists>a\<in>set (alertas g). has_codigo codigo_derivacion a"
    unfolding h1 using that by (simp add: ensure_derivacion_def)
qed

lemma one_patient_fire: "dolor_intenso_rows one_patient \<noteq> []"
  by (simp add: one_patient_rows)

lemma one_patient_alertas: "alertas one_patient = []"
  by (simp add: one_patient_def)

theorem alert_upsert_witness:
  "riesgo_alto_rows scenario_F_above \<noteq> []
   \<and> \<not> (\<exists>a\<in>set (alertas scenario_F_above). has_codigo codigo_riesgo_alto a)
   \<and> length (filter (has_codigo codigo_riesgo_alto)
        (alertas (fst (rule_alerta_riesgo_alto 10 scenario_F_above)))) = 1
   \<and> length (filter (has_codigo codigo_riesgo_alto)
        (alertas (fst (rule_alerta_riesgo_alto 20
           (fst (rule_alerta_riesgo_alto 10 scenario_F_above)))))) = 1
   \<and> dolor_intenso_rows one_patient \<noteq> []
   \<and> \<not> (\<exists>a\<in>set (alertas one_patient). has_codigo codigo_derivacion a)
   \<and> filter (has_codigo codigo_derivacion)
        (alertas (fst (CYpher_REGLA_HEMATOMA_SEVERO 10 one_patient))) = [alerta_derivacion 10]
   \<and> alertas (fst (CYpher_REGLA_HEMATOMA_SEVERO 20 (fst (CYpher_REGLA_HEMATOMA_SEVERO 10 one_patient))))
        = alertas (fst (CYpher_REGLA_HEMATOMA_SEVERO 10 one_patient))"
  using alert_upsert [of scenario_F_above 20 10] alert_upsert [of one_patient 20 10]
    two_slots_fire one_patient_fire
  by (simp add: two_slots_alertas one_patient_alertas)

end
